theory Spec2Isabelle
  imports Complex_Main "HOL-Library.Word"
begin

section \<open>ELDER / GRACE editing memory and low-rank adapter layers\<close>

text \<open>
  Shallow embedding of \<^verbatim>\<open>peft/tuners/elder.py\<close>: the cluster store
  (\<^verbatim>\<open>VecDB\<close>), the memory layer (\<^verbatim>\<open>GraceLayer\<close>,
  \<^verbatim>\<open>GraceLinear.forward\<close>), the block gather (\<^verbatim>\<open>dynamic\<close>),
  the router (\<^verbatim>\<open>Gate\<close>) and the dense adapter layer
  (\<^verbatim>\<open>Linear\<close>).

  Tensors of floating-point numbers are modelled over the reals: a one-dimensional
  tensor is a \<open>real list\<close>, a matrix a list of rows, a batch a list of matrices.
  Rounding, infinities and NaN are therefore outside the model; every statement below
  is about exact arithmetic. Shape errors of the tensor library are kept: an operation
  that raises in Python returns the exception as a value here.
\<close>

subsection \<open>Exceptions and tensors\<close>

datatype error =
  IndexError | KeyError | RuntimeError | AttributeError | UnboundLocalError | AssertionError
  | ZeroDivisionError

type_synonym vec = "real list"
type_synonym matrix = "real list list"

text \<open>
  A label is a one-dimensional tensor of 64-bit integers (\<^verbatim>\<open>torch.int64\<close>, the type of
  token ids): arithmetic on its entries wraps around.
\<close>

type_synonym label = "64 word list"

text \<open>\<^verbatim>\<open>NO_LORA = -100\<close>\<close>

definition NO_LORA :: int where
  "NO_LORA = - 100"

text \<open>
  \<^verbatim>\<open>torch.stack(key_list, dim=0)\<close> on a Python list of one-dimensional tensors:
  raises on the empty list and when two tensors differ in size.
\<close>

definition stack :: "vec list \<Rightarrow> error + vec list" where
  "stack ks =
     (if ks = [] then Inl RuntimeError
      else if list_all (\<lambda>k. length k = length (hd ks)) ks then Inr ks
      else Inl RuntimeError)"

text \<open>The Euclidean distance of two vectors of one size (\<^verbatim>\<open>p=2\<close>).\<close>

definition euclid :: "vec \<Rightarrow> vec \<Rightarrow> real" where
  "euclid x y = sqrt (sum_list (map2 (\<lambda>a b. (a - b)\<^sup>2) x y))"

text \<open>
  \<^verbatim>\<open>torch.cdist(batch_query, key.view(1, -1), p=2)\<close> followed by
  \<^verbatim>\<open>.view(-1, 1)\<close>: one distance per row of the batch; the last dimensions
  must agree.
\<close>

definition cdist :: "vec list \<Rightarrow> vec \<Rightarrow> error + real list" where
  "cdist batch_query k =
     (if list_all (\<lambda>q. length q = length k) batch_query
      then Inr (map (\<lambda>q. euclid q k) batch_query)
      else Inl RuntimeError)"

text \<open>
  \<^verbatim>\<open>VecDB.euc\<close> called with a Python list of keys: the list is stacked first.
\<close>

definition euc :: "vec list \<Rightarrow> vec \<Rightarrow> error + real list" where
  "euc key_list k =
     (case stack key_list of
        Inl e \<Rightarrow> Inl e
      | Inr batch_query \<Rightarrow> cdist batch_query k)"

text \<open>
  Tensor addition of two one-dimensional tensors, with the broadcasting of a tensor of
  size one, and the sum \<^verbatim>\<open>sum(key_list)\<close>, which starts from the integer
  \<^verbatim>\<open>0\<close> and adds the keys from left to right.
\<close>

definition tensor_add :: "vec \<Rightarrow> vec \<Rightarrow> error + vec" where
  "tensor_add x y =
     (if length x = length y then Inr (map2 (+) x y)
      else if length x = 1 then Inr (map (\<lambda>b. hd x + b) y)
      else if length y = 1 then Inr (map (\<lambda>a. a + hd y) x)
      else Inl RuntimeError)"

fun sum_from :: "vec \<Rightarrow> vec list \<Rightarrow> error + vec" where
  "sum_from acc [] = Inr acc"
| "sum_from acc (k # ks) =
     (case tensor_add acc k of
        Inl e \<Rightarrow> Inl e
      | Inr acc' \<Rightarrow> sum_from acc' ks)"

definition py_sum :: "vec list \<Rightarrow> error + vec" where
  "py_sum key_list =
     (case key_list of
        [] \<Rightarrow> Inl AttributeError
      | k # ks \<Rightarrow> sum_from (map (\<lambda>a. 0 + a) k) ks)"

text \<open>
  The maximum and the minimum along dimension 0 of a column of distances, and the index
  of the first smallest entry (\<^verbatim>\<open>dists.min(0)\<close>).
\<close>

definition maximum :: "real list \<Rightarrow> real" where
  "maximum ds = fold max (tl ds) (hd ds)"

definition minimum :: "real list \<Rightarrow> real" where
  "minimum ds = fold min (tl ds) (hd ds)"

fun first_index :: "real \<Rightarrow> real list \<Rightarrow> nat" where
  "first_index a [] = 0"
| "first_index a (x # xs) = (if x = a then 0 else Suc (first_index a xs))"

definition argmin :: "real list \<Rightarrow> nat" where
  "argmin ds = first_index (minimum ds) ds"

text \<open>
  Python's builtin \<^verbatim>\<open>max(a, b)\<close> keeps its first argument unless the second
  is strictly greater.
\<close>

definition py_max :: "real \<Rightarrow> real \<Rightarrow> real" where
  "py_max a b = (if b > a then b else a)"

subsection \<open>The cluster store\<close>

record mem_point =
  get_key :: vec
  get_value :: int

record cluster =
  cluster_center :: vec
  radius :: real
  key_label :: label
  points :: "mem_point list"

record VecDB =
  config_init_radius :: real
  table :: "cluster list"
  forget_num :: int
  conflict_num :: int
  forget_keys :: "vec list"

text \<open>\<^verbatim>\<open>VecDB.__init__\<close>\<close>

definition VecDB_init :: "real \<Rightarrow> VecDB" where
  "VecDB_init r =
     \<lparr>config_init_radius = r, table = [], forget_num = 0, conflict_num = 0, forget_keys = []\<rparr>"

text \<open>\<^verbatim>\<open>VecDB.add_cluster\<close>\<close>

definition add_cluster :: "VecDB \<Rightarrow> vec \<Rightarrow> int \<Rightarrow> label \<Rightarrow> VecDB" where
  "add_cluster db new_key new_value new_edit_label =
     db\<lparr>table := table db @
       [\<lparr>cluster_center = new_key,
         radius = config_init_radius db,
         key_label = new_edit_label,
         points = [\<lparr>get_key = new_key, get_value = new_value\<rparr>]\<rparr>]\<rparr>"

text \<open>
  \<^verbatim>\<open>VecDB.update_cluster\<close>. The store is changed in place, so an exception leaves
  what was written before it: the result is the exception, if any, with the store as the
  call leaves it. The point is appended before anything can raise; the center is written
  before the distances are computed.
\<close>

definition update_cluster :: "VecDB \<Rightarrow> nat \<Rightarrow> vec \<Rightarrow> int \<Rightarrow> error option \<times> VecDB" where
  "update_cluster db index new_key new_value =
     (if index \<ge> length (table db) then (Some IndexError, db)
      else
        let row = table db ! index;
            row1 = row\<lparr>points := points row @ [\<lparr>get_key = new_key, get_value = new_value\<rparr>]\<rparr>;
            db1 = db\<lparr>table := list_update (table db) index row1\<rparr>;
            key_list = map get_key (points row1)
        in case py_sum key_list of
             Inl e \<Rightarrow> (Some e, db1)
           | Inr s \<Rightarrow>
               let new_cluster_center = map (\<lambda>a. a / real (length key_list)) s;
                   row2 = row1\<lparr>cluster_center := new_cluster_center\<rparr>;
                   db2 = db\<lparr>table := list_update (table db) index row2\<rparr>
               in case euc key_list new_cluster_center of
                    Inl e \<Rightarrow> (Some e, db2)
                  | Inr dists \<Rightarrow>
                      let largest_distance = maximum dists;
                          row3 = row2\<lparr>radius := py_max largest_distance (config_init_radius db)\<rparr>
                      in (None, db\<lparr>table := list_update (table db) index row3\<rparr>))"

text \<open>
  \<^verbatim>\<open>VecDB.label_match\<close>: the labels with \<^verbatim>\<open>-100\<close> masked to 0 have equal sums.
  \<^verbatim>\<open>torch.sum\<close> of a tensor of 64-bit integers is a 64-bit integer: the sum wraps
  around, as the sum of words does.
\<close>

definition masked_fill :: "label \<Rightarrow> label" where
  "masked_fill lbl = map (\<lambda>t. if t = - 100 then 0 else t) lbl"

definition label_match :: "label \<Rightarrow> label \<Rightarrow> bool" where
  "label_match edit_lbl key_lbl \<longleftrightarrow>
     sum_list (masked_fill edit_lbl) = sum_list (masked_fill key_lbl)"

text \<open>
  The filtering loop of \<^verbatim>\<open>split_cluster_radii_in_half\<close>: a point whose distance is
  within the radius is kept, the key of any other point goes to the forget-list.
\<close>

fun filter_points :: "real \<Rightarrow> (mem_point \<times> real) list \<Rightarrow> mem_point list \<Rightarrow> vec list
    \<Rightarrow> mem_point list \<times> vec list" where
  "filter_points cluster_radius [] filtered_key_list forgotten = (filtered_key_list, forgotten)"
| "filter_points cluster_radius ((p, d) # rest) filtered_key_list forgotten =
     (if d \<le> cluster_radius
      then filter_points cluster_radius rest (filtered_key_list @ [p]) forgotten
      else filter_points cluster_radius rest filtered_key_list (forgotten @ [get_key p]))"

text \<open>
  \<^verbatim>\<open>VecDB.split_cluster_radii_in_half\<close>. \<^verbatim>\<open>self.table[-1]\<close> is the last cluster;
  the radius used for filtering is read back from the table after both assignments.
\<close>

definition split_cluster_radii_in_half :: "VecDB \<Rightarrow> nat \<Rightarrow> real \<Rightarrow> error option \<times> VecDB" where
  "split_cluster_radii_in_half db nearest_cluster smallest_distance =
     (if nearest_cluster \<ge> length (table db) then (Some IndexError, db)
      else
        let t1 = list_update (table db) nearest_cluster
                   ((table db ! nearest_cluster)\<lparr>radius := smallest_distance / 2 - 1 / 100000\<rparr>);
            t2 = list_update t1 (length t1 - 1)
                   ((t1 ! (length t1 - 1))\<lparr>radius := smallest_distance / 2 + 1 / 100000\<rparr>);
            db2 = db\<lparr>table := t2\<rparr>;
            row = t2 ! nearest_cluster;
            cluster_radius = radius row;
            key_list = map get_key (points row)
        in case stack key_list of
             Inl e \<Rightarrow> (Some e, db2)
           | Inr keys \<Rightarrow>
               (case cdist keys (cluster_center row) of
                  Inl e \<Rightarrow> (Some e, db2)
                | Inr dists \<Rightarrow>
                    let (kept, forgotten) =
                          filter_points cluster_radius (zip (points row) dists) [] (forget_keys db);
                        filtered_key_list =
                          (if length kept = 0
                           then kept @ [\<lparr>get_key = cluster_center row, get_value = NO_LORA\<rparr>]
                           else kept)
                    in (None,
                        db\<lparr>table := list_update t2 nearest_cluster (row\<lparr>points := filtered_key_list\<rparr>),
                           forget_keys := forgotten,
                           forget_num := forget_num db
                             + (int (length key_list) - int (length filtered_key_list)),
                           conflict_num := conflict_num db + 1\<rparr>)))"

text \<open>
  \<^verbatim>\<open>VecDB.search_database\<close>: one row of distances per cluster, stacked, then the
  minimum over the clusters for each query. \<^verbatim>\<open>torch.stack\<close> raises on an empty
  table, and \<^verbatim>\<open>view(-1, 0)\<close> on an empty batch.
\<close>

fun center_dists :: "cluster list \<Rightarrow> vec list \<Rightarrow> error + real list list" where
  "center_dists [] batch_query = Inr []"
| "center_dists (x # xs) batch_query =
     (case cdist batch_query (cluster_center x) of
        Inl e \<Rightarrow> Inl e
      | Inr row \<Rightarrow>
          (case center_dists xs batch_query of
             Inl e \<Rightarrow> Inl e
           | Inr rows \<Rightarrow> Inr (row # rows)))"

definition search_database :: "VecDB \<Rightarrow> vec list \<Rightarrow> error + (real list \<times> nat list)" where
  "search_database db batch_query =
     (case center_dists (table db) batch_query of
        Inl e \<Rightarrow> Inl e
      | Inr dists \<Rightarrow>
          if dists = [] \<or> batch_query = [] then Inl RuntimeError
          else
            let columns = map (\<lambda>b. map (\<lambda>row. row ! b) dists) [0 ..< length batch_query]
            in Inr (map minimum columns, map argmin columns))"

text \<open>
  The body of the \<^verbatim>\<open>try\<close> block of \<^verbatim>\<open>VecDB.search_cluster\<close> for one query:
  the value found, or the exception raised.
\<close>

definition search_one :: "VecDB \<Rightarrow> vec \<Rightarrow> real \<Rightarrow> nat \<Rightarrow> error + int" where
  "search_one db query smallest_distance nearest_cluster =
     (if nearest_cluster \<ge> length (table db) then Inl IndexError
      else
        let row = table db ! nearest_cluster
        in if smallest_distance > radius row then Inr NO_LORA
           else
             (case euc (map get_key (points row)) query of
                Inl e \<Rightarrow> Inl e
              | Inr dists \<Rightarrow> Inr (get_value (points row ! argmin dists))))"

text \<open>
  \<^verbatim>\<open>VecDB.search_cluster\<close>: the loop over
  \<^verbatim>\<open>zip(batch_query, smallest_distance_list, nearest_cluster_list)\<close>. An exception
  of the \<^verbatim>\<open>try\<close> block is printed and the loop goes on to the next query with
  nothing appended; the handler itself reads \<^verbatim>\<open>self.table[nearest_cluster]\<close>, so an
  index out of range escapes from it.
\<close>

fun search_loop :: "VecDB \<Rightarrow> (vec \<times> real \<times> nat) list \<Rightarrow> int list \<Rightarrow> error + int list" where
  "search_loop db [] lora_mapping_block = Inr lora_mapping_block"
| "search_loop db ((query, smallest_distance, nearest_cluster) # rest) lora_mapping_block =
     (case search_one db query smallest_distance nearest_cluster of
        Inr v \<Rightarrow> search_loop db rest (lora_mapping_block @ [v])
      | Inl e \<Rightarrow>
          if nearest_cluster \<ge> length (table db) then Inl IndexError
          else search_loop db rest lora_mapping_block)"

definition search_cluster :: "VecDB \<Rightarrow> vec list \<Rightarrow> real list \<Rightarrow> nat list \<Rightarrow> error + int list" where
  "search_cluster db batch_query smallest_distance_list nearest_cluster_list =
     search_loop db (zip batch_query (zip smallest_distance_list nearest_cluster_list)) []"

subsection \<open>The memory layer\<close>

text \<open>
  The state of a \<^verbatim>\<open>GraceLinear\<close> layer that its forward pass reads and writes,
  together with the module-level variable \<^verbatim>\<open>LORA_BLOCK_MAPPING\<close> it publishes to.
  \<^verbatim>\<open>init_radius\<close> is an attribute set from the configuration;
  \<^verbatim>\<open>batch_iter\<close> is \<^verbatim>\<open>None\<close> until the caller sets it. The attribute
  \<^verbatim>\<open>edit_label\<close> is not created by \<^verbatim>\<open>__init__\<close>: it does not exist
  (\<open>None\<close> here) until the caller assigns the labels of the batch, and reading it
  before that raises \<^verbatim>\<open>AttributeError\<close>.
\<close>

record GraceLayer =
  VecDB :: VecDB
  init_radius :: real
  edit_label :: "label list option"
  batch_iter :: "int option"
  lora_block_mapping :: "int list"
  block_id :: int
  disable_grace :: bool
  training :: bool
  LORA_BLOCK_MAPPING :: "int list"

text \<open>\<^verbatim>\<open>GraceLayer.__init__\<close>, for a layer in training mode or not.\<close>

definition GraceLayer_init :: "real \<Rightarrow> bool \<Rightarrow> GraceLayer" where
  "GraceLayer_init r tr =
     \<lparr>VecDB = VecDB_init r, init_radius = r, edit_label = None, batch_iter = None,
      lora_block_mapping = [], block_id = 0, disable_grace = False, training = tr,
      LORA_BLOCK_MAPPING = []\<rparr>"

text \<open>
  The expression \<^verbatim>\<open>self.edit_label[index]\<close>: the attribute may not exist, and the
  index may be out of range.
\<close>

definition read_edit_label :: "GraceLayer \<Rightarrow> nat \<Rightarrow> error + label" where
  "read_edit_label st index =
     (case edit_label st of
        None \<Rightarrow> Inl AttributeError
      | Some labels \<Rightarrow> if index \<ge> length labels then Inl IndexError else Inr (labels ! index))"

text \<open>\<^verbatim>\<open>GraceLayer.search\<close>\<close>

definition search :: "GraceLayer \<Rightarrow> vec list \<Rightarrow> error + (real list \<times> nat list \<times> int list)" where
  "search st batch_query =
     (case search_database (VecDB st) batch_query of
        Inl e \<Rightarrow> Inl e
      | Inr (smallest_distance_list, nearest_cluster_list) \<Rightarrow>
          (case search_cluster (VecDB st) batch_query smallest_distance_list nearest_cluster_list of
             Inl e \<Rightarrow> Inl e
           | Inr mapping \<Rightarrow> Inr (smallest_distance_list, nearest_cluster_list, mapping)))"

text \<open>
  \<^verbatim>\<open>GraceLayer.init_key_value\<close>: the loop, then the increment of the block counter.
  The result is the exception, if any, the layer and the list built.
\<close>

fun init_loop :: "GraceLayer \<Rightarrow> nat \<Rightarrow> vec list \<Rightarrow> int list \<Rightarrow> error option \<times> GraceLayer \<times> int list" where
  "init_loop st index [] mapping = (None, st, mapping)"
| "init_loop st index (query # rest) mapping =
     (case read_edit_label st index of
        Inl e \<Rightarrow> (Some e, st, mapping)
      | Inr new_edit_label \<Rightarrow>
          let new_value = block_id st;
              st1 = st\<lparr>VecDB := add_cluster (VecDB st) query new_value new_edit_label\<rparr>
          in init_loop st1 (Suc index) rest (mapping @ [new_value]))"

definition init_key_value :: "GraceLayer \<Rightarrow> vec list \<Rightarrow> error option \<times> GraceLayer \<times> int list" where
  "init_key_value st batch_query =
     (case init_loop st 0 batch_query [] of
        (Some e, st1, mapping) \<Rightarrow> (Some e, st1, mapping)
      | (None, st1, mapping) \<Rightarrow> (None, st1\<lparr>block_id := block_id st1 + 1\<rparr>, mapping))"

text \<open>\<^verbatim>\<open>GraceLayer.add_cluster\<close> and \<^verbatim>\<open>GraceLayer.update_cluster\<close>\<close>

definition GraceLayer_add_cluster :: "GraceLayer \<Rightarrow> vec \<Rightarrow> nat \<Rightarrow> error option \<times> GraceLayer" where
  "GraceLayer_add_cluster st query label_index =
     (case read_edit_label st label_index of
        Inl e \<Rightarrow> (Some e, st)
      | Inr new_edit_label \<Rightarrow>
          (None, st\<lparr>VecDB := add_cluster (VecDB st) query (block_id st) new_edit_label\<rparr>))"

definition GraceLayer_update_cluster :: "GraceLayer \<Rightarrow> nat \<Rightarrow> vec \<Rightarrow> int \<Rightarrow> error option \<times> GraceLayer" where
  "GraceLayer_update_cluster st index query v =
     (case update_cluster (VecDB st) index query v of
        (e, db) \<Rightarrow> (e, st\<lparr>VecDB := db\<rparr>))"

text \<open>
  The body of the loop of \<^verbatim>\<open>GraceLinear.forward\<close> that updates a store that is not
  empty, for the example \<^verbatim>\<open>index\<close>: \<^verbatim>\<open>smallest_distance\<close> and
  \<^verbatim>\<open>nearest_cluster\<close> are the entries of the lists computed by the search before
  the loop, the row is read from the store as the earlier examples left it.
\<close>

definition update_step :: "GraceLayer \<Rightarrow> nat \<Rightarrow> vec \<Rightarrow> real \<Rightarrow> nat \<Rightarrow> error option \<times> GraceLayer" where
  "update_step st index query smallest_distance nearest_cluster =
     (if nearest_cluster \<ge> length (table (VecDB st)) then (Some IndexError, st)
      else
        let row = table (VecDB st) ! nearest_cluster
        in if smallest_distance > radius row + init_radius st
           then GraceLayer_add_cluster st query index
           else
             (case read_edit_label st index of
                Inl e \<Rightarrow> (Some e, st)
              | Inr lbl \<Rightarrow>
                  if label_match lbl (key_label row)
                  then GraceLayer_update_cluster st nearest_cluster query (block_id st)
                  else
                    (case GraceLayer_add_cluster st query index of
                       (Some e, st1) \<Rightarrow> (Some e, st1)
                     | (None, st1) \<Rightarrow>
                         (case split_cluster_radii_in_half (VecDB st1) nearest_cluster smallest_distance of
                            (e, db) \<Rightarrow> (e, st1\<lparr>VecDB := db\<rparr>)))))"

fun update_loop :: "GraceLayer \<Rightarrow> nat \<Rightarrow> vec list \<Rightarrow> real list \<Rightarrow> nat list \<Rightarrow> error option \<times> GraceLayer" where
  "update_loop st index [] smallest_distance_list nearest_cluster_list = (None, st)"
| "update_loop st index (query # rest) smallest_distance_list nearest_cluster_list =
     (if index \<ge> length nearest_cluster_list \<or> index \<ge> length smallest_distance_list
      then (Some IndexError, st)
      else
        (case update_step st index query (smallest_distance_list ! index) (nearest_cluster_list ! index) of
           (Some e, st1) \<Rightarrow> (Some e, st1)
         | (None, st1) \<Rightarrow> update_loop st1 (Suc index) rest smallest_distance_list nearest_cluster_list))"

text \<open>
  \<^verbatim>\<open>GraceLinear.forward\<close>, from the batch of queries
  \<^verbatim>\<open>layer_out[:, key_id]\<close> on: the output of the linear map is returned unchanged
  and is left out.
\<close>

definition GraceLinear_forward :: "GraceLayer \<Rightarrow> vec list \<Rightarrow> error option \<times> GraceLayer" where
  "GraceLinear_forward st batch_query =
     (if disable_grace st then (None, st)
      else
        (case (if length (table (VecDB st)) \<noteq> 0 then search st batch_query
               else Inr ([], [], replicate (length batch_query) NO_LORA)) of
           Inl e \<Rightarrow> (Some e, st)
         | Inr (smallest_distance_list, nearest_cluster_list, mapping) \<Rightarrow>
             if \<not> training st
             then (None, st\<lparr>lora_block_mapping := mapping, LORA_BLOCK_MAPPING := mapping\<rparr>)
             else if length (table (VecDB st)) = 0
             then
               (case init_key_value st batch_query of
                  (Some e, st1, m) \<Rightarrow> (Some e, st1)
                | (None, st1, m) \<Rightarrow>
                    (None, st1\<lparr>lora_block_mapping := m, LORA_BLOCK_MAPPING := m\<rparr>))
             else if batch_iter st = Some 0
             then
               (case update_loop (st\<lparr>lora_block_mapping := replicate (length batch_query) (block_id st)\<rparr>)
                       0 batch_query smallest_distance_list nearest_cluster_list of
                  (Some e, st1) \<Rightarrow> (Some e, st1)
                | (None, st1) \<Rightarrow>
                    (None, st1\<lparr>block_id := block_id st1 + 1,
                               LORA_BLOCK_MAPPING := lora_block_mapping st1\<rparr>))
             else (None, st\<lparr>LORA_BLOCK_MAPPING := lora_block_mapping st\<rparr>)))"

subsection \<open>Predicates used in the statements\<close>

text \<open>Every cluster of the store holds at least one point.\<close>

definition nonempty_clusters :: "VecDB \<Rightarrow> bool" where
  "nonempty_clusters db \<longleftrightarrow> list_all (\<lambda>c. points c \<noteq> []) (table db)"

text \<open>The point lies within distance \<open>r\<close> of the center of the cluster.\<close>

definition in_radius :: "cluster \<Rightarrow> real \<Rightarrow> mem_point \<Rightarrow> bool" where
  "in_radius c r p \<longleftrightarrow> euclid (get_key p) (cluster_center c) \<le> r"

text \<open>
  The radius that \<^verbatim>\<open>split_cluster_radii_in_half\<close> leaves on the cluster it is
  called for: the second assignment, to the last cluster, wins when that is the same
  cluster.
\<close>

definition split_radius :: "VecDB \<Rightarrow> nat \<Rightarrow> real \<Rightarrow> real" where
  "split_radius db i d =
     (if i = length (table db) - 1 then d / 2 + 1 / 100000 else d / 2 - 1 / 100000)"

text \<open>A store with two clusters, the first holding two points at distance 1 of its center.\<close>

definition two_point_store :: VecDB where
  "two_point_store =
     \<lparr>config_init_radius = 1,
      table =
        [\<lparr>cluster_center = [0], radius = 1, key_label = [5],
          points = [\<lparr>get_key = [1], get_value = 0\<rparr>, \<lparr>get_key = [- 1], get_value = 0\<rparr>]\<rparr>,
         \<lparr>cluster_center = [1 / 2], radius = 1, key_label = [6],
          points = [\<lparr>get_key = [1 / 2], get_value = 1\<rparr>]\<rparr>],
      forget_num = 0, conflict_num = 0, forget_keys = []\<rparr>"




text \<open>
  The distances of a query to the centers of the clusters of a store, in the order of
  the table: the nearest cluster of the query in that store is the first position of
  the smallest entry.
\<close>

definition nearest_distances :: "VecDB \<Rightarrow> vec \<Rightarrow> real list" where
  "nearest_distances db q = map (\<lambda>c. euclid q (cluster_center c)) (table db)"

text \<open>
  A layer in training mode whose store holds one cluster, at \<open>[0]\<close> with label \<open>[5]\<close>,
  with the labels of a batch of three examples, and the same layer with the labels of a
  batch of two examples.
\<close>

definition batch_layer :: GraceLayer where
  "batch_layer =
     \<lparr>VecDB = add_cluster (VecDB_init 1) [0] 0 [5], init_radius = 1,
      edit_label = Some [[5], [5], [7]], batch_iter = Some 0, lora_block_mapping = [],
      block_id = 1, disable_grace = False, training = True, LORA_BLOCK_MAPPING = []\<rparr>"

definition drift_layer :: GraceLayer where
  "drift_layer = batch_layer\<lparr>edit_label := Some [[5], [5]]\<rparr>"

text \<open>
  The layer \<open>drift_layer\<close> in the middle of the training pass on the batch
  \<open>[[10], [21 / 2]]\<close>: the first example went through the loop body, with the distance
  and the cluster index found for it by the search before the loop.
\<close>

definition drift_after_first :: GraceLayer where
  "drift_after_first =
     snd (update_step (drift_layer\<lparr>lora_block_mapping := replicate 2 (block_id drift_layer)\<rparr>)
            0 [10] 10 0)"

text \<open>
  The store left by a call of \<^verbatim>\<open>update_cluster\<close> with a key whose size differs from
  the size of the key already in the cluster (the call raises after it appended the point
  and wrote the center), and a layer in inference mode that holds this store.
\<close>

definition degenerate_store :: VecDB where
  "degenerate_store = snd (update_cluster (add_cluster (VecDB_init 1) [0] 0 [5]) 0 [1, 2] 0)"

definition inference_layer :: GraceLayer where
  "inference_layer = (GraceLayer_init 1 False)\<lparr>VecDB := degenerate_store\<rparr>"

subsection \<open>The router\<close>

text \<open>
  \<^verbatim>\<open>nn.Linear\<close> applied to a batch of rows, \<^verbatim>\<open>F.softmax(gate, dim=-1)\<close>,
  \<^verbatim>\<open>torch.gather(input, index, dim=-1)\<close> for two-dimensional arguments (the index may
  have fewer rows than the input; an index out of range raises).
\<close>

definition dot :: "vec \<Rightarrow> vec \<Rightarrow> real" where
  "dot x y = sum_list (map2 (*) x y)"

definition linear :: "matrix \<Rightarrow> vec option \<Rightarrow> matrix \<Rightarrow> error + matrix" where
  "linear W b inp =
     (if list_all (\<lambda>x. list_all (\<lambda>w. length w = length x) W) inp
      then Inr (map (\<lambda>x. case b of
                             None \<Rightarrow> map (\<lambda>w. dot w x) W
                           | Some bias \<Rightarrow> map2 (\<lambda>w c. dot w x + c) W bias) inp)
      else Inl RuntimeError)"

definition softmax :: "vec \<Rightarrow> vec" where
  "softmax z = map (\<lambda>a. exp a / sum_list (map exp z)) z"

definition gather :: "matrix \<Rightarrow> nat list list \<Rightarrow> error + matrix" where
  "gather input index =
     (if length index \<le> length input
         \<and> list_all (\<lambda>(row, is). list_all (\<lambda>i. i < length row) is) (zip input index)
      then Inr (map2 (\<lambda>row is. map (\<lambda>i. row ! i) is) input index)
      else Inl RuntimeError)"

text \<open>
  \<^verbatim>\<open>torch.topk(gate, k, dim=-1, largest=True, sorted=False)\<close> on one row: the \<open>k\<close>
  largest entries with their positions. With \<^verbatim>\<open>sorted=False\<close> the library fixes
  neither the order of the \<open>k\<close> positions nor the winner of a tie, so the selection is a
  parameter \<open>pick\<close> of the model, a function from \<open>k\<close> and the row to the list of
  positions. \<open>is_topk\<close> says that a list of positions is a result the library may
  give: \<open>k\<close> distinct positions of the row, and no entry left out is larger than an
  entry taken. A \<open>pick\<close> whose answer is not such a list is not followed:
  \<open>descending\<close>, the selection with the largest entry first and the lower position
  first among equal entries, stands in for it.
\<close>

definition is_topk :: "nat \<Rightarrow> vec \<Rightarrow> nat list \<Rightarrow> bool" where
  "is_topk k row idx \<longleftrightarrow>
     length idx = k \<and> distinct idx \<and> list_all (\<lambda>i. i < length row) idx
     \<and> list_all (\<lambda>j. j \<in> set idx \<or> list_all (\<lambda>i. row ! j \<le> row ! i) idx) [0 ..< length row]"

definition descending :: "nat \<Rightarrow> vec \<Rightarrow> nat list" where
  "descending k row = map snd (take k (sort_key (\<lambda>(v, i). - v) (zip row [0 ..< length row])))"

definition topk :: "(nat \<Rightarrow> vec \<Rightarrow> nat list) \<Rightarrow> nat \<Rightarrow> vec \<Rightarrow> error + (vec \<times> nat list)" where
  "topk pick k row =
     (if k > length row then Inl RuntimeError
      else
        let idx = (if is_topk k row (pick k row) then pick k row else descending k row)
        in Inr (map (\<lambda>i. row ! i) idx, idx))"

fun topk_rows ::
    "(nat \<Rightarrow> vec \<Rightarrow> nat list) \<Rightarrow> nat \<Rightarrow> matrix \<Rightarrow> error + (matrix \<times> nat list list)" where
  "topk_rows pick k [] = Inr ([], [])"
| "topk_rows pick k (row # rows) =
     (case topk pick k row of
        Inl e \<Rightarrow> Inl e
      | Inr (vals, idx) \<Rightarrow>
          (case topk_rows pick k rows of
             Inl e \<Rightarrow> Inl e
           | Inr (valss, idxs) \<Rightarrow> Inr (vals # valss, idx # idxs)))"

text \<open>
  The attributes of a \<^verbatim>\<open>Gate\<close>. \<^verbatim>\<open>preset_gate_top_k_idx\<close> does not exist until
  \<^verbatim>\<open>set_target\<close> has assigned it.
\<close>

record Gate =
  num_expert :: nat
  gate_weight :: matrix
  gate_bias :: "vec option"
  top_k :: nat
  preset_target :: bool
  target_set_mode :: "string option"
  preset_gate_top_k_idx :: "nat list list option"
  editing :: bool
  loss :: "real option"

text \<open>\<^verbatim>\<open>Gate.__init__\<close>, from the parameters of the linear scorer.\<close>

definition Gate_init :: "matrix \<Rightarrow> vec option \<Rightarrow> nat \<Rightarrow> Gate" where
  "Gate_init W b k =
     \<lparr>num_expert = length W, gate_weight = W, gate_bias = b, top_k = min k (length W),
      preset_target = False, target_set_mode = None, preset_gate_top_k_idx = None,
      editing = False, loss = None\<rparr>"



text \<open>
  The first part of \<^verbatim>\<open>Gate.forward\<close>: the softmax of the scores and the selection of
  the experts, by the preset indices in mode \<^verbatim>\<open>'hard'\<close> and by \<^verbatim>\<open>topk\<close> otherwise.
\<close>

definition select_experts ::
    "(nat \<Rightarrow> vec \<Rightarrow> nat list) \<Rightarrow> Gate \<Rightarrow> matrix \<Rightarrow> error + (matrix \<times> nat list list \<times> matrix)" where
  "select_experts pick g inp =
     (case linear (gate_weight g) (gate_bias g) inp of
        Inl e \<Rightarrow> Inl e
      | Inr scores \<Rightarrow>
          let gate = map softmax scores
          in if preset_target g \<and> target_set_mode g = Some ''hard''
             then
               (case preset_gate_top_k_idx g of
                  None \<Rightarrow> Inl AttributeError
                | Some gate_top_k_idx \<Rightarrow>
                    (case gather gate gate_top_k_idx of
                       Inl e \<Rightarrow> Inl e
                     | Inr gate_top_k_val \<Rightarrow> Inr (gate, gate_top_k_idx, gate_top_k_val)))
             else
               (case topk_rows pick (top_k g) gate of
                  Inl e \<Rightarrow> Inl e
                | Inr (gate_top_k_val, gate_top_k_idx) \<Rightarrow> Inr (gate, gate_top_k_idx, gate_top_k_val)))"

text \<open>
  The guided loss as the code computes it:
  \<^verbatim>\<open>-torch.log(init_expert_probs).sum() / gate.size(0)\<close>.
\<close>

definition guided_loss :: "matrix \<Rightarrow> matrix \<Rightarrow> real" where
  "guided_loss gate init_expert_probs =
     - sum_list (concat (map (map ln) init_expert_probs)) / real (length gate)"

text \<open>
  \<^verbatim>\<open>Gate.forward\<close>. The local variable \<^verbatim>\<open>target_top_k_idx\<close> is bound only in the
  branch of mode \<^verbatim>\<open>'soft'\<close>; reading it unbound raises \<^verbatim>\<open>UnboundLocalError\<close>. The
  result holds the gate with the loss recorded, the indices, the scores and, when asked
  for, the whole distribution.
\<close>

definition Gate_forward ::
    "(nat \<Rightarrow> vec \<Rightarrow> nat list) \<Rightarrow> Gate \<Rightarrow> matrix \<Rightarrow> bool
       \<Rightarrow> error + (Gate \<times> nat list list \<times> matrix \<times> matrix option)" where
  "Gate_forward pick g inp return_all_scores =
     (case select_experts pick g inp of
        Inl e \<Rightarrow> Inl e
      | Inr (gate, gate_top_k_idx, gate_top_k_val) \<Rightarrow>
          (case (if preset_target g \<and> target_set_mode g = Some ''soft''
                 then (case preset_gate_top_k_idx g of
                         None \<Rightarrow> Inl AttributeError
                       | Some idx \<Rightarrow> Inr (Some idx))
                 else Inr None) of
             Inl e \<Rightarrow> Inl e
           | Inr target_top_k_idx \<Rightarrow>
               let gate_score = gate_top_k_val
               in if editing g
                  then
                    (case target_top_k_idx of
                       None \<Rightarrow> Inl UnboundLocalError
                     | Some idx \<Rightarrow>
                         (case gather gate idx of
                            Inl e \<Rightarrow> Inl e
                          | Inr init_expert_probs \<Rightarrow>
                              Inr (g\<lparr>loss := Some (guided_loss gate init_expert_probs)\<rparr>,
                                   gate_top_k_idx, gate_score,
                                   if return_all_scores then Some gate else None)))
                  else Inr (g, gate_top_k_idx, gate_score,
                            if return_all_scores then Some gate else None)))"


text \<open>A gate over two experts and one feature with all parameters zero, in editing mode.\<close>

definition editing_gate :: Gate where
  "editing_gate = (Gate_init [[0], [0]] None 1)\<lparr>editing := True\<rparr>"


subsection \<open>Matrices with their shape\<close>

text \<open>
  A two-dimensional tensor with its number of columns, so that a tensor without rows
  keeps its width; a three-dimensional tensor is a list of such matrices.
\<close>

record mat =
  ncols :: nat
  rows :: "real list list"

definition nrows :: "mat \<Rightarrow> nat" where
  "nrows M = length (rows M)"

definition wf_mat :: "mat \<Rightarrow> bool" where
  "wf_mat M \<longleftrightarrow> list_all (\<lambda>row. length row = ncols M) (rows M)"

definition entry :: "mat \<Rightarrow> nat \<Rightarrow> nat \<Rightarrow> real" where
  "entry M i j = rows M ! i ! j"

definition build :: "nat \<Rightarrow> nat \<Rightarrow> (nat \<Rightarrow> nat \<Rightarrow> real) \<Rightarrow> mat" where
  "build n m f = \<lparr>ncols = m, rows = map (\<lambda>i. map (\<lambda>j. f i j) [0 ..< m]) [0 ..< n]\<rparr>"

text \<open>\<^verbatim>\<open>torch.zeros((n, m))\<close>, \<^verbatim>\<open>M.T\<close> / \<^verbatim>\<open>M.mT\<close>, \<^verbatim>\<open>M * c\<close> and \<^verbatim>\<open>A @ B\<close>.\<close>

definition zeros :: "nat \<Rightarrow> nat \<Rightarrow> mat" where
  "zeros n m = build n m (\<lambda>i j. 0)"

definition mT :: "mat \<Rightarrow> mat" where
  "mT M = build (ncols M) (nrows M) (\<lambda>i j. entry M j i)"

definition scale :: "real \<Rightarrow> mat \<Rightarrow> mat" where
  "scale c M = build (nrows M) (ncols M) (\<lambda>i j. entry M i j * c)"

definition matmul :: "mat \<Rightarrow> mat \<Rightarrow> error + mat" where
  "matmul A B =
     (if ncols A = nrows B
      then Inr (build (nrows A) (ncols B) (\<lambda>i j. \<Sum>k \<leftarrow> [0 ..< ncols A]. entry A i k * entry B k j))
      else Inl RuntimeError)"

text \<open>
  The in-place \<^verbatim>\<open>W += D\<close> and \<^verbatim>\<open>W -= D\<close>: \<open>D\<close> must broadcast to the shape of
  \<open>W\<close>, a dimension of size one being repeated.
\<close>

definition broadcasts_to :: "mat \<Rightarrow> mat \<Rightarrow> bool" where
  "broadcasts_to D W \<longleftrightarrow>
     (nrows D = nrows W \<or> nrows D = 1) \<and> (ncols D = ncols W \<or> ncols D = 1)"

definition bentry :: "mat \<Rightarrow> nat \<Rightarrow> nat \<Rightarrow> real" where
  "bentry D i j = entry D (if nrows D = 1 then 0 else i) (if ncols D = 1 then 0 else j)"

definition iadd :: "mat \<Rightarrow> mat \<Rightarrow> error + mat" where
  "iadd W D =
     (if broadcasts_to D W
      then Inr (build (nrows W) (ncols W) (\<lambda>i j. entry W i j + bentry D i j))
      else Inl RuntimeError)"

definition isub :: "mat \<Rightarrow> mat \<Rightarrow> error + mat" where
  "isub W D =
     (if broadcasts_to D W
      then Inr (build (nrows W) (ncols W) (\<lambda>i j. entry W i j - bentry D i j))
      else Inl RuntimeError)"

text \<open>
  A Python slice \<^verbatim>\<open>inputs[start:end]\<close> of the rows of a matrix: a negative bound counts
  from the end, and both bounds are clamped to the number of rows.
\<close>

definition clamp_index :: "nat \<Rightarrow> int \<Rightarrow> nat" where
  "clamp_index n i = (if i < 0 then nat (max 0 (int n + i)) else min (nat i) n)"

definition slice_rows :: "mat \<Rightarrow> int \<Rightarrow> int \<Rightarrow> mat" where
  "slice_rows M start end =
     (let s = clamp_index (nrows M) start; e = clamp_index (nrows M) end
      in \<lparr>ncols = ncols M, rows = take (e - s) (drop s (rows M))\<rparr>)"

text \<open>
  Operations on batches: \<^verbatim>\<open>torch.stack\<close> of matrices (all of one shape, at least
  one), the batched \<^verbatim>\<open>@\<close> with a batch of size one repeated, and the in-place
  \<^verbatim>\<open>result += D\<close> on a batch.
\<close>

fun sequence :: "(error + 'a) list \<Rightarrow> error + 'a list" where
  "sequence [] = Inr []"
| "sequence (x # xs) =
     (case x of
        Inl e \<Rightarrow> Inl e
      | Inr a \<Rightarrow> (case sequence xs of Inl e \<Rightarrow> Inl e | Inr as \<Rightarrow> Inr (a # as)))"

definition stack_mats :: "mat list \<Rightarrow> error + mat list" where
  "stack_mats ms =
     (if ms = [] then Inl RuntimeError
      else if list_all (\<lambda>m. nrows m = nrows (hd ms) \<and> ncols m = ncols (hd ms)) ms then Inr ms
      else Inl RuntimeError)"

definition bmm :: "mat list \<Rightarrow> mat list \<Rightarrow> error + mat list" where
  "bmm X Y =
     (if length X = length Y then sequence (map2 matmul X Y)
      else if length Y = 1 then sequence (map (\<lambda>x. matmul x (hd Y)) X)
      else if length X = 1 then sequence (map (\<lambda>y. matmul (hd X) y) Y)
      else Inl RuntimeError)"

definition iadd_batch :: "mat list \<Rightarrow> mat list \<Rightarrow> error + mat list" where
  "iadd_batch R D =
     (if length D = length R then sequence (map2 iadd R D)
      else if length D = 1 then sequence (map (\<lambda>r. iadd r (hd D)) R)
      else Inl RuntimeError)"

subsection \<open>The block gather\<close>

text \<open>
  \<^verbatim>\<open>dynamic.forward\<close>, with the attributes \<^verbatim>\<open>maximum_rank\<close> and
  \<^verbatim>\<open>num_rank_per_block\<close> and the module-level list \<^verbatim>\<open>LORA_BLOCK_MAPPING\<close> as
  arguments.
\<close>

definition gather_block :: "nat \<Rightarrow> mat \<Rightarrow> int \<Rightarrow> mat" where
  "gather_block nrpb inputs blk =
     (if blk = NO_LORA then zeros nrpb (ncols inputs)
      else
        let start = blk * int nrpb; end = start + int nrpb
        in slice_rows inputs start end)"

definition dynamic_forward :: "nat \<Rightarrow> nat \<Rightarrow> int list \<Rightarrow> mat \<Rightarrow> error + mat list" where
  "dynamic_forward max_rank nrpb mapping inputs =
     (if length mapping = 0 then Inl AssertionError
      else
        (case stack_mats (map (gather_block nrpb inputs) mapping) of
           Inl e \<Rightarrow> Inl e
         | Inr result \<Rightarrow> Inr (map (scale (sqrt (real max_rank / real nrpb))) result)))"

subsection \<open>The dense adapter layer\<close>

text \<open>
  An entry of \<^verbatim>\<open>lora_A\<close> or \<^verbatim>\<open>lora_B\<close> is a parameter (a tensor) or a module that
  holds its tensor as \<^verbatim>\<open>.weight\<close>. A tensor has no attribute \<^verbatim>\<open>weight\<close>, and a
  module has no attribute \<^verbatim>\<open>T\<close> and no shape.
\<close>

datatype lora_entry = Parameter mat | Module mat

definition attr_weight :: "lora_entry \<Rightarrow> error + mat" where
  "attr_weight x = (case x of Parameter m \<Rightarrow> Inl AttributeError | Module m \<Rightarrow> Inr m)"

definition as_tensor :: "lora_entry \<Rightarrow> error + mat" where
  "as_tensor x = (case x of Parameter m \<Rightarrow> Inr m | Module m \<Rightarrow> Inl AttributeError)"

text \<open>
  The state of a \<^verbatim>\<open>Linear\<close> layer for its active adapter: \<^verbatim>\<open>lora_A\<close> and
  \<^verbatim>\<open>lora_B\<close> are \<open>None\<close> when the dictionaries have no entry for the adapter;
  \<^verbatim>\<open>maximum_rank\<close> and \<^verbatim>\<open>num_rank_per_block\<close> are those of \<^verbatim>\<open>nd_lora_A\<close>
  and \<^verbatim>\<open>nd_lora_B\<close>, which are always set together; \<^verbatim>\<open>warnings\<close> collects what
  \<^verbatim>\<open>warnings.warn\<close> was given.
\<close>

record Linear =
  weight :: mat
  bias :: "vec option"
  fan_in_fan_out :: bool
  lora_r :: int
  scaling :: real
  lora_A :: "lora_entry option"
  lora_B :: "lora_entry option"
  maximum_rank :: nat
  num_rank_per_block :: nat
  merged :: bool
  disable_adapters :: bool
  warnings :: "string list"

text \<open>
  \<^verbatim>\<open>Linear.__init__\<close> with \<^verbatim>\<open>LoraLayer.update_layer\<close>: for \<open>r > 0\<close> the factors are
  created as parameters of shapes \<open>(in_features, r)\<close> and \<open>(r, out_features)\<close>; \<open>A\<close> and
  \<open>B\<close> are the values they hold. \<^verbatim>\<open>update_dynamic\<close> asserts that the block size
  divides the rank.
\<close>

definition Linear_init :: "mat \<Rightarrow> vec option \<Rightarrow> bool \<Rightarrow> int \<Rightarrow> real \<Rightarrow> nat \<Rightarrow> mat \<Rightarrow> mat
    \<Rightarrow> error + Linear" where
  "Linear_init W b fifo r alpha nrpb A B =
     (let L = \<lparr>weight = W, bias = b, fan_in_fan_out = fifo, lora_r = r, scaling = 0,
               lora_A = None, lora_B = None, maximum_rank = 1, num_rank_per_block = 1,
               merged = False, disable_adapters = False, warnings = []\<rparr>
      in if r > 0
         then if nrpb = 0 then Inl ZeroDivisionError
              else if nat r mod nrpb \<noteq> 0 then Inl AssertionError
              else Inr (L\<lparr>lora_A := Some (Parameter A), lora_B := Some (Parameter B),
                          maximum_rank := nat r, num_rank_per_block := nrpb,
                          scaling := alpha / real_of_int r\<rparr>)
         else Inr L)"

text \<open>
  \<^verbatim>\<open>transpose(weight, fan_in_fan_out)\<close> of \<^verbatim>\<open>peft.utils\<close>: the transposed matrix when
  the flag is set, and the term \<^verbatim>\<open>transpose(B.weight @ A.weight, fan_in_fan_out) * scaling\<close>
  that \<^verbatim>\<open>merge\<close> adds and \<^verbatim>\<open>unmerge\<close> subtracts.
\<close>

definition peft_transpose :: "mat \<Rightarrow> bool \<Rightarrow> mat" where
  "peft_transpose W fifo = (if fifo then mT W else W)"

definition merge_delta :: "Linear \<Rightarrow> error + mat" where
  "merge_delta L =
     (case lora_B L of
        None \<Rightarrow> Inl KeyError
      | Some b \<Rightarrow>
          (case attr_weight b of
             Inl e \<Rightarrow> Inl e
           | Inr Bw \<Rightarrow>
               (case lora_A L of
                  None \<Rightarrow> Inl KeyError
                | Some a \<Rightarrow>
                    (case attr_weight a of
                       Inl e \<Rightarrow> Inl e
                     | Inr Aw \<Rightarrow>
                         (case matmul Bw Aw of
                            Inl e \<Rightarrow> Inl e
                          | Inr BA \<Rightarrow> Inr (scale (scaling L) (peft_transpose BA (fan_in_fan_out L))))))))"

text \<open>\<^verbatim>\<open>Linear.merge\<close> and \<^verbatim>\<open>Linear.unmerge\<close>: the exception, if any, and the layer.\<close>

definition merge :: "Linear \<Rightarrow> error option \<times> Linear" where
  "merge L =
     (if lora_A L = None then (None, L)
      else if merged L then (None, L\<lparr>warnings := warnings L @ [''Already merged. Nothing to do.'']\<rparr>)
      else if lora_r L > 0
      then
        (case merge_delta L of
           Inl e \<Rightarrow> (Some e, L)
         | Inr D \<Rightarrow>
             (case iadd (weight L) D of
                Inl e \<Rightarrow> (Some e, L)
              | Inr W \<Rightarrow> (None, L\<lparr>weight := W, merged := True\<rparr>)))
      else (None, L))"

definition unmerge :: "Linear \<Rightarrow> error option \<times> Linear" where
  "unmerge L =
     (if lora_A L = None then (None, L)
      else if \<not> merged L
      then (None, L\<lparr>warnings := warnings L @ [''Already unmerged. Nothing to do.'']\<rparr>)
      else if lora_r L > 0
      then
        (case merge_delta L of
           Inl e \<Rightarrow> (Some e, L)
         | Inr D \<Rightarrow>
             (case isub (weight L) D of
                Inl e \<Rightarrow> (Some e, L)
              | Inr W \<Rightarrow> (None, L\<lparr>weight := W, merged := False\<rparr>)))
      else (None, L))"

text \<open>
  \<^verbatim>\<open>F.linear(x, transpose(self.weight, self.fan_in_fan_out), bias=self.bias)\<close> on a
  batch: each example times the transposed weight, plus the bias on every row.
\<close>

definition add_bias :: "vec option \<Rightarrow> mat \<Rightarrow> error + mat" where
  "add_bias b M =
     (case b of
        None \<Rightarrow> Inr M
      | Some c \<Rightarrow>
          if length c = ncols M \<or> length c = 1
          then Inr (build (nrows M) (ncols M)
                      (\<lambda>i j. entry M i j + c ! (if length c = 1 then 0 else j)))
          else Inl RuntimeError)"

definition F_linear :: "mat list \<Rightarrow> mat \<Rightarrow> vec option \<Rightarrow> error + mat list" where
  "F_linear x W b =
     sequence (map (\<lambda>xi. case matmul xi (mT W) of Inl e \<Rightarrow> Inl e | Inr y \<Rightarrow> add_bias b y) x)"

text \<open>
  The low-rank term of \<^verbatim>\<open>Linear.forward\<close>,
  \<^verbatim>\<open>(dropout(x) @ lora_A @ lora_B) * scaling\<close>, with the factors gathered block by block
  for the published list; \<open>dropout\<close> stands for \<^verbatim>\<open>self.lora_dropout[adapter]\<close>.
\<close>

definition lora_term :: "(mat list \<Rightarrow> mat list) \<Rightarrow> int list \<Rightarrow> Linear \<Rightarrow> mat list \<Rightarrow> error + mat list" where
  "lora_term dropout mapping L x =
     (case lora_A L of
        None \<Rightarrow> Inl KeyError
      | Some a \<Rightarrow>
          (case as_tensor a of
             Inl e \<Rightarrow> Inl e
           | Inr A \<Rightarrow>
               (case dynamic_forward (maximum_rank L) (num_rank_per_block L) mapping (mT A) of
                  Inl e \<Rightarrow> Inl e
                | Inr blocks_A \<Rightarrow>
                    (case lora_B L of
                       None \<Rightarrow> Inl KeyError
                     | Some b \<Rightarrow>
                         (case as_tensor b of
                            Inl e \<Rightarrow> Inl e
                          | Inr B \<Rightarrow>
                              (case dynamic_forward (maximum_rank L) (num_rank_per_block L) mapping B of
                                 Inl e \<Rightarrow> Inl e
                               | Inr blocks_B \<Rightarrow>
                                   (case bmm (dropout x) (map mT blocks_A) of
                                      Inl e \<Rightarrow> Inl e
                                    | Inr xa \<Rightarrow>
                                        (case bmm xa blocks_B of
                                           Inl e \<Rightarrow> Inl e
                                         | Inr xab \<Rightarrow> Inr (map (scale (scaling L)) xab)))))))))"

text \<open>
  \<^verbatim>\<open>Linear.forward\<close>: the exception or the output, with the layer as the call leaves
  it (the branch for disabled adapters unmerges a merged layer).
\<close>

definition Linear_forward ::
    "(mat list \<Rightarrow> mat list) \<Rightarrow> int list \<Rightarrow> Linear \<Rightarrow> mat list \<Rightarrow> error + (Linear \<times> mat list)" where
  "Linear_forward dropout mapping L x =
     (if lora_A L = None
      then (case F_linear x (peft_transpose (weight L) (fan_in_fan_out L)) (bias L) of
              Inl e \<Rightarrow> Inl e | Inr y \<Rightarrow> Inr (L, y))
      else if disable_adapters L
      then
        (case (if lora_r L > 0 \<and> merged L then unmerge L else (None, L)) of
           (Some e, L1) \<Rightarrow> Inl e
         | (None, L1) \<Rightarrow>
             (case F_linear x (peft_transpose (weight L1) (fan_in_fan_out L1)) (bias L1) of
                Inl e \<Rightarrow> Inl e | Inr y \<Rightarrow> Inr (L1, y)))
      else if lora_r L > 0 \<and> \<not> merged L
      then
        (case F_linear x (peft_transpose (weight L) (fan_in_fan_out L)) (bias L) of
           Inl e \<Rightarrow> Inl e
         | Inr result \<Rightarrow>
             (case lora_term dropout mapping L x of
                Inl e \<Rightarrow> Inl e
              | Inr D \<Rightarrow>
                  (case iadd_batch result D of
                     Inl e \<Rightarrow> Inl e
                   | Inr y \<Rightarrow> Inr (L, y))))
      else (case F_linear x (peft_transpose (weight L) (fan_in_fan_out L)) (bias L) of
              Inl e \<Rightarrow> Inl e | Inr y \<Rightarrow> Inr (L, y)))"

text \<open>
  The one-by-one matrix \<open>[[1]]\<close>, and the layer that \<^verbatim>\<open>Linear.__init__\<close> builds for
  one input and one output feature with \<open>r = 1\<close>, \<open>lora_alpha = 1\<close> and one rank per
  block, all three tensors holding \<open>[[1]]\<close>.
\<close>

definition unit_mat :: mat where
  "unit_mat = \<lparr>ncols = 1, rows = [[1]]\<rparr>"

definition small_linear :: Linear where
  "small_linear =
     \<lparr>weight = unit_mat, bias = None, fan_in_fan_out = False, lora_r = 1, scaling = 1,
      lora_A = Some (Parameter unit_mat), lora_B = Some (Parameter unit_mat),
      maximum_rank = 1, num_rank_per_block = 1, merged = False, disable_adapters = False,
      warnings = []\<rparr>"

text \<open>The one-by-one matrix \<open>[[2]]\<close>, an input of one example with one row.\<close>

definition two_mat :: mat where
  "two_mat = \<lparr>ncols = 1, rows = [[2]]\<rparr>"



section \<open>Properties\<close>

subsection \<open>Auxiliary facts about the tensor operations\<close>

lemma euclid_single: "euclid [a] [b] = \<bar>a - b\<bar>"
  by (simp add: euclid_def)

lemma maximum_Max: "ds \<noteq> [] \<Longrightarrow> maximum ds = Max (set ds)"
proof (cases ds)
  case (Cons a list)
  then show ?thesis using Max.set_eq_fold[of a list] by (simp add: maximum_def)
qed simp

lemma minimum_Min: "ds \<noteq> [] \<Longrightarrow> minimum ds = Min (set ds)"
proof (cases ds)
  case (Cons a list)
  then show ?thesis using Min.set_eq_fold[of a list] by (simp add: minimum_def)
qed simp

lemma first_index_less: "a \<in> set xs \<Longrightarrow> first_index a xs < length xs"
  by (induction xs) auto


lemma argmin_less: "ds \<noteq> [] \<Longrightarrow> argmin ds < length ds"
  by (simp add: argmin_def minimum_Min first_index_less)


lemma py_max_max: "py_max a b = max a b"
  by (simp add: py_max_def max_def)

lemma cdist_Inr:
  "cdist qs k = Inr ds \<longleftrightarrow>
     list_all (\<lambda>q. length q = length k) qs \<and> ds = map (\<lambda>q. euclid q k) qs"
  by (auto simp: cdist_def)

lemma euc_Inr:
  "euc ks k = Inr ds \<longleftrightarrow>
     ks \<noteq> [] \<and> list_all (\<lambda>q. length q = length k) ks \<and> ds = map (\<lambda>q. euclid q k) ks"
proof (cases "ks = []")
  case True
  then show ?thesis by (simp add: euc_def stack_def)
next
  case False
  show ?thesis
  proof (cases "list_all (\<lambda>q. length q = length (hd ks)) ks")
    case True
    then show ?thesis using False by (auto simp: euc_def stack_def cdist_def)
  next
    case same: False
    have "\<not> list_all (\<lambda>q. length q = length k) ks"
    proof
      assume a: "list_all (\<lambda>q. length q = length k) ks"
      then have "length (hd ks) = length k" using False by (cases ks) auto
      with a same show False by simp
    qed
    then show ?thesis using False same by (simp add: euc_def stack_def)
  qed
qed

subsection \<open>What a successful update leaves\<close>

lemma sum_from_same_length:
  "list_all (\<lambda>k. length k = length acc) ks \<Longrightarrow>
   sum_from acc ks = Inr (map (\<lambda>j. acc ! j + (\<Sum>k\<leftarrow>ks. k ! j)) [0 ..< length acc])"
proof (induction ks arbitrary: acc)
  case Nil
  then show ?case by (simp add: map_nth)
next
  case (Cons k ks)
  then have len: "length k = length acc" and rest: "list_all (\<lambda>k'. length k' = length acc) ks"
    by simp_all
  have add: "tensor_add acc k = Inr (map2 (+) acc k)"
    using len by (simp add: tensor_add_def)
  have "sum_from (map2 (+) acc k) ks =
      Inr (map (\<lambda>j. map2 (+) acc k ! j + (\<Sum>k\<leftarrow>ks. k ! j)) [0 ..< length (map2 (+) acc k)])"
    using rest len by (intro Cons.IH) simp
  then show ?case using add len by (simp add: add.assoc)
qed

lemma add_zero_map: "map ((+) (0::real)) k = k"
  by (induction k) auto

lemma py_sum_same_length:
  assumes "key_list \<noteq> []" "list_all (\<lambda>k. length k = n) key_list"
  shows "py_sum key_list = Inr (map (\<lambda>j. (\<Sum>k\<leftarrow>key_list. k ! j)) [0 ..< n])"
proof -
  obtain k ks where kl: "key_list = k # ks" using assms(1) by (cases key_list) auto
  have n: "length k = n" using assms(2) kl by simp
  have "list_all (\<lambda>k'. length k' = length k) ks"
    using assms(2) kl by (simp add: list_all_iff)
  from sum_from_same_length[OF this] show ?thesis
    using kl n by (simp add: py_sum_def add_zero_map)
qed

lemma update_cluster_success:
  assumes ok: "fst (update_cluster db i k v) = None"
  defines "db' \<equiv> snd (update_cluster db i k v)"
  defines "c' \<equiv> table db' ! i"
  defines "ks \<equiv> map get_key (points c')"
  shows "i < length (table db)"
    and "length (table db') = length (table db)"
    and "points c' = points (table db ! i) @ [\<lparr>get_key = k, get_value = v\<rparr>]"
    and "list_all (\<lambda>key. length key = length k) ks"
    and "cluster_center c' = map (\<lambda>j. (\<Sum>key\<leftarrow>ks. key ! j) / real (length ks)) [0 ..< length k]"
    and "radius c' = max (Max ((\<lambda>key. euclid key (cluster_center c')) ` set ks)) (config_init_radius db)"
    and "key_label c' = key_label (table db ! i)"
    and "forget_num db' = forget_num db \<and> conflict_num db' = conflict_num db
         \<and> forget_keys db' = forget_keys db \<and> config_init_radius db' = config_init_radius db"
proof -
  show i: "i < length (table db)"
    using ok by (cases "i < length (table db)") (auto simp: update_cluster_def)
  define row1 where "row1 = (table db ! i)\<lparr>points := points (table db ! i) @ [\<lparr>get_key = k, get_value = v\<rparr>]\<rparr>"
  define key_list where "key_list = map get_key (points row1)"
  have unf: "update_cluster db i k v =
     (case py_sum key_list of
        Inl e \<Rightarrow> (Some e, db\<lparr>table := list_update (table db) i row1\<rparr>)
      | Inr s \<Rightarrow>
         (case euc key_list (map (\<lambda>a. a / real (length key_list)) s) of
            Inl e \<Rightarrow> (Some e, db\<lparr>table := list_update (table db) i
                         (row1\<lparr>cluster_center := map (\<lambda>a. a / real (length key_list)) s\<rparr>)\<rparr>)
          | Inr dists \<Rightarrow>
              (None, db\<lparr>table := list_update (table db) i
                 (row1\<lparr>cluster_center := map (\<lambda>a. a / real (length key_list)) s,
                        radius := py_max (maximum dists) (config_init_radius db)\<rparr>)\<rparr>)))"
    using i unfolding update_cluster_def row1_def key_list_def Let_def by simp
  obtain s where s: "py_sum key_list = Inr s"
    using ok unfolding unf by (cases "py_sum key_list") auto
  define center where "center = map (\<lambda>a. a / real (length key_list)) s"
  obtain dists where dists: "euc key_list center = Inr dists"
    using ok unfolding unf s center_def by (cases "euc key_list (map (\<lambda>a. a / real (length key_list)) s)") auto
  have res: "db' = db\<lparr>table := list_update (table db) i
                 (row1\<lparr>cluster_center := center, radius := py_max (maximum dists) (config_init_radius db)\<rparr>)\<rparr>"
    unfolding db'_def unf s using dists by (simp add: center_def)
  have c': "c' = row1\<lparr>cluster_center := center, radius := py_max (maximum dists) (config_init_radius db)\<rparr>"
    using i by (simp add: c'_def res)
  have ks: "ks = key_list" by (simp add: ks_def c' key_list_def)
  have ne: "key_list \<noteq> []" and same: "list_all (\<lambda>q. length q = length center) key_list"
    and dists_eq: "dists = map (\<lambda>q. euclid q center) key_list"
    using dists by (simp_all add: euc_Inr)
  have kin: "k \<in> set key_list" by (simp add: key_list_def row1_def)
  then have lenk: "length center = length k" using same by (auto simp: list_all_iff)
  show "length (table db') = length (table db)" by (simp add: res)
  show "points c' = points (table db ! i) @ [\<lparr>get_key = k, get_value = v\<rparr>]"
    by (simp add: c' row1_def)
  show "list_all (\<lambda>key. length key = length k) ks"
    using same lenk ks by simp
  have "py_sum key_list = Inr (map (\<lambda>j. (\<Sum>k\<leftarrow>key_list. k ! j)) [0 ..< length k])"
    using py_sum_same_length[OF ne, of "length k"] same lenk by simp
  with s have s_eq: "s = map (\<lambda>j. (\<Sum>k\<leftarrow>key_list. k ! j)) [0 ..< length k]" by simp
  show "cluster_center c' = map (\<lambda>j. (\<Sum>key\<leftarrow>ks. key ! j) / real (length ks)) [0 ..< length k]"
    by (simp add: c' center_def s_eq ks)
  have "maximum dists = Max ((\<lambda>key. euclid key center) ` set key_list)"
    using ne by (simp add: maximum_Max dists_eq)
  then show "radius c' = max (Max ((\<lambda>key. euclid key (cluster_center c')) ` set ks)) (config_init_radius db)"
    by (simp add: c' py_max_max ks)
  show "key_label c' = key_label (table db ! i)" by (simp add: c' row1_def)
  show "forget_num db' = forget_num db \<and> conflict_num db' = conflict_num db
         \<and> forget_keys db' = forget_keys db \<and> config_init_radius db' = config_init_radius db"
    by (simp add: res)
qed

lemma update_cluster_succeeds:
  assumes i: "i < length (table db)"
    and same: "list_all (\<lambda>p. length (get_key p) = length k) (points (table db ! i))"
  shows "fst (update_cluster db i k v) = None"
proof -
  define key_list where "key_list = map get_key (points (table db ! i)) @ [k]"
  have ne: "key_list \<noteq> []" by (simp add: key_list_def)
  have all: "list_all (\<lambda>q. length q = length k) key_list"
    using same by (simp add: key_list_def list_all_iff)
  have s: "py_sum key_list = Inr (map (\<lambda>j. (\<Sum>k\<leftarrow>key_list. k ! j)) [0 ..< length k])"
    using py_sum_same_length[OF ne all] .
  define center where
    "center = map (\<lambda>a. a / real (length key_list)) (map (\<lambda>j. (\<Sum>k\<leftarrow>key_list. k ! j)) [0 ..< length k])"
  have "length center = length k" by (simp add: center_def)
  then have "euc key_list center = Inr (map (\<lambda>q. euclid q center) key_list)"
    using ne all by (simp add: euc_Inr)
  then show ?thesis
    using i s unfolding update_cluster_def Let_def
    by (simp add: key_list_def center_def)
qed

subsection \<open>What a successful split leaves\<close>

lemma filter_points_eq:
  "filter_points r pds acc fk =
     (acc @ map fst (filter (\<lambda>pd. snd pd \<le> r) pds),
      fk @ map (\<lambda>pd. get_key (fst pd)) (filter (\<lambda>pd. \<not> snd pd \<le> r) pds))"
  by (induction r pds acc fk rule: filter_points.induct) auto

lemma filter_zip_map:
  "map fst (filter (\<lambda>pd. P (snd pd)) (zip ps (map f ps))) = filter (\<lambda>p. P (f p)) ps"
  by (induction ps) auto

lemma filter_zip_map_g:
  "map (\<lambda>pd. g (fst pd)) (filter (\<lambda>pd. P (snd pd)) (zip ps (map f ps))) = map g (filter (\<lambda>p. P (f p)) ps)"
  by (induction ps) auto

lemma split_success:
  assumes i: "i < length (table db)"
    and ok: "fst (split_cluster_radii_in_half db i d) = None"
  defines "c \<equiv> table db ! i"
  defines "r \<equiv> split_radius db i d"
  defines "kept \<equiv> filter (in_radius c r) (points c)"
  defines "db' \<equiv> snd (split_cluster_radii_in_half db i d)"
  shows "length (table db') = length (table db)"
    and "radius (table db' ! i) = r"
    and "cluster_center (table db' ! i) = cluster_center c"
    and "key_label (table db' ! i) = key_label c"
    and "points (table db' ! i) =
           (if kept = [] then [\<lparr>get_key = cluster_center c, get_value = NO_LORA\<rparr>] else kept)"
    and "forget_keys db' = forget_keys db @ map get_key (filter (\<lambda>p. \<not> in_radius c r p) (points c))"
    and "forget_num db' = forget_num db + int (length (points c))
           - int (length (points (table db' ! i)))"
    and "conflict_num db' = conflict_num db + 1"
    and "i \<noteq> length (table db) - 1 \<Longrightarrow>
           radius (last (table db')) = d / 2 + 1 / 100000"
proof -
  define t1 where "t1 = list_update (table db) i ((table db ! i)\<lparr>radius := d / 2 - 1 / 100000\<rparr>)"
  define t2 where "t2 = list_update t1 (length t1 - 1) ((t1 ! (length t1 - 1))\<lparr>radius := d / 2 + 1 / 100000\<rparr>)"
  define row where "row = t2 ! i"
  have len: "length t1 = length (table db)" "length t2 = length (table db)"
    by (simp_all add: t1_def t2_def)
  have row_eq: "row = c\<lparr>radius := r\<rparr>"
    using i by (auto simp: row_def t2_def t1_def c_def r_def split_radius_def nth_list_update)
  have pts: "points row = points c" "cluster_center row = cluster_center c" "radius row = r"
    "key_label row = key_label c"
    by (simp_all add: row_eq)
  have unf: "split_cluster_radii_in_half db i d =
      (case stack (map get_key (points row)) of
         Inl e \<Rightarrow> (Some e, db\<lparr>table := t2\<rparr>)
       | Inr keys \<Rightarrow>
           (case cdist keys (cluster_center row) of
              Inl e \<Rightarrow> (Some e, db\<lparr>table := t2\<rparr>)
            | Inr dists \<Rightarrow>
                let (kept, forgotten) =
                      filter_points (radius row) (zip (points row) dists) [] (forget_keys db);
                    filtered_key_list =
                      (if length kept = 0
                       then kept @ [\<lparr>get_key = cluster_center row, get_value = NO_LORA\<rparr>]
                       else kept)
                in (None,
                    db\<lparr>table := list_update t2 i (row\<lparr>points := filtered_key_list\<rparr>),
                       forget_keys := forgotten,
                       forget_num := forget_num db
                         + (int (length (map get_key (points row))) - int (length filtered_key_list)),
                       conflict_num := conflict_num db + 1\<rparr>)))"
    using i unfolding split_cluster_radii_in_half_def t1_def t2_def row_def Let_def by simp
  obtain keys where keys: "stack (map get_key (points row)) = Inr keys"
    using ok unfolding unf by (cases "stack (map get_key (points row))") auto
  then have keys_eq: "keys = map get_key (points row)"
    by (auto simp: stack_def split: if_splits)
  obtain dists where dists: "cdist keys (cluster_center row) = Inr dists"
    using ok unfolding unf keys by (cases "cdist keys (cluster_center row)") auto
  then have dists_eq: "dists = map (\<lambda>p. euclid (get_key p) (cluster_center c)) (points c)"
    by (simp add: cdist_Inr keys_eq pts comp_def)
  have kept_eq: "map fst (filter (\<lambda>pd. snd pd \<le> r) (zip (points c) dists)) = kept"
    unfolding dists_eq kept_def in_radius_def
    using filter_zip_map[of "\<lambda>x. x \<le> r" "points c" "\<lambda>p. euclid (get_key p) (cluster_center c)"]
    by simp
  have forg_eq: "map (\<lambda>pd. get_key (fst pd)) (filter (\<lambda>pd. \<not> snd pd \<le> r) (zip (points c) dists))
      = map get_key (filter (\<lambda>p. \<not> in_radius c r p) (points c))"
    unfolding dists_eq in_radius_def
    using filter_zip_map_g[of get_key "\<lambda>x. \<not> x \<le> r" "points c" "\<lambda>p. euclid (get_key p) (cluster_center c)"]
    by simp
  have res: "db' = db\<lparr>table := list_update t2 i
                 (row\<lparr>points := (if kept = [] then [\<lparr>get_key = cluster_center c, get_value = NO_LORA\<rparr>] else kept)\<rparr>),
               forget_keys := forget_keys db @ map get_key (filter (\<lambda>p. \<not> in_radius c r p) (points c)),
               forget_num := forget_num db + (int (length (points c))
                  - int (length (if kept = [] then [\<lparr>get_key = cluster_center c, get_value = NO_LORA\<rparr>] else kept))),
               conflict_num := conflict_num db + 1\<rparr>"
    unfolding db'_def unf keys
    using dists kept_eq forg_eq
    by (simp add: filter_points_eq pts)
  show "length (table db') = length (table db)" by (simp add: res len)
  show "radius (table db' ! i) = r" using i by (simp add: res len pts)
  show "cluster_center (table db' ! i) = cluster_center c" using i by (simp add: res len pts)
  show "key_label (table db' ! i) = key_label c" using i by (simp add: res len pts)
  show p: "points (table db' ! i) =
           (if kept = [] then [\<lparr>get_key = cluster_center c, get_value = NO_LORA\<rparr>] else kept)"
    using i by (simp add: res len)
  show "forget_keys db' = forget_keys db @ map get_key (filter (\<lambda>p. \<not> in_radius c r p) (points c))"
    by (simp add: res)
  show "forget_num db' = forget_num db + int (length (points c))
           - int (length (points (table db' ! i)))"
    unfolding p by (simp add: res)
  show "conflict_num db' = conflict_num db + 1" by (simp add: res)
  show "radius (last (table db')) = d / 2 + 1 / 100000" if "i \<noteq> length (table db) - 1"
  proof -
    have "length (table db') = length (table db)" by (simp add: res len)
    then have ne: "table db' \<noteq> []" using i by auto
    have "last (table db') = table db' ! (length (table db) - 1)"
      using ne by (simp add: last_conv_nth res len)
    also have "\<dots> = t2 ! (length (table db) - 1)"
      using that i by (simp add: res len)
    finally show ?thesis using i by (simp add: t2_def len)
  qed
qed

subsection \<open>Clusters are never empty\<close>

lemma nonempty_add_cluster:
  "nonempty_clusters db \<Longrightarrow> nonempty_clusters (add_cluster db k v l)"
  by (simp add: nonempty_clusters_def add_cluster_def)

lemma nonempty_update_cluster:
  "nonempty_clusters db \<Longrightarrow> nonempty_clusters (snd (update_cluster db i k v))"
  by (auto simp: nonempty_clusters_def update_cluster_def Let_def list_all_length nth_list_update
      split: sum.splits)

lemma nonempty_split:
  "nonempty_clusters db \<Longrightarrow> nonempty_clusters (snd (split_cluster_radii_in_half db i d))"
  by (auto simp: nonempty_clusters_def split_cluster_radii_in_half_def Let_def list_all_length
      nth_list_update split: sum.splits prod.splits)

lemma update_cluster_points:
  "i < length (table db) \<Longrightarrow>
   points (table (snd (update_cluster db i k v)) ! i) =
     points (table db ! i) @ [\<lparr>get_key = k, get_value = v\<rparr>]"
  by (auto simp: update_cluster_def Let_def split: sum.splits)

text \<open>
  Claim C8. Every cluster of the store holds at least one point, whatever operation
  is applied and whether or not it raises: \<^verbatim>\<open>add_cluster\<close> appends a cluster with
  exactly one point, \<^verbatim>\<open>update_cluster\<close> appends one point to the cluster it is
  called for, and when the filtering of \<^verbatim>\<open>split_cluster_radii_in_half\<close> keeps no
  point the cluster is left with the single point made of its center and
  \<^verbatim>\<open>NO_LORA\<close>.
\<close>

theorem clusters_never_empty:
  assumes "nonempty_clusters db"
  shows "nonempty_clusters (add_cluster db k v l)
    \<and> points (last (table (add_cluster db k v l))) = [\<lparr>get_key = k, get_value = v\<rparr>]
    \<and> nonempty_clusters (snd (update_cluster db i k v))
    \<and> (i < length (table db) \<longrightarrow>
         points (table (snd (update_cluster db i k v)) ! i) =
           points (table db ! i) @ [\<lparr>get_key = k, get_value = v\<rparr>])
    \<and> nonempty_clusters (snd (split_cluster_radii_in_half db i d))
    \<and> (i < length (table db) \<and> fst (split_cluster_radii_in_half db i d) = None
         \<and> filter (in_radius (table db ! i) (split_radius db i d)) (points (table db ! i)) = [] \<longrightarrow>
         points (table (snd (split_cluster_radii_in_half db i d)) ! i) =
           [\<lparr>get_key = cluster_center (table db ! i), get_value = NO_LORA\<rparr>])"
proof -
  have "points (last (table (add_cluster db k v l))) = [\<lparr>get_key = k, get_value = v\<rparr>]"
    by (simp add: add_cluster_def)
  moreover have "points (table (snd (split_cluster_radii_in_half db i d)) ! i) =
           [\<lparr>get_key = cluster_center (table db ! i), get_value = NO_LORA\<rparr>]"
    if "i < length (table db)" "fst (split_cluster_radii_in_half db i d) = None"
      "filter (in_radius (table db ! i) (split_radius db i d)) (points (table db ! i)) = []"
    using split_success(5)[OF that(1,2)] that(3) by simp
  ultimately show ?thesis
    using assms nonempty_add_cluster nonempty_update_cluster nonempty_split update_cluster_points
    by blast
qed

theorem clusters_never_empty_witness:
  "nonempty_clusters two_point_store
   \<and> fst (split_cluster_radii_in_half two_point_store 0 (1 / 2)) = None
   \<and> filter (in_radius (table two_point_store ! 0) (split_radius two_point_store 0 (1 / 2)))
        (points (table two_point_store ! 0)) = []
   \<and> nonempty_clusters (snd (split_cluster_radii_in_half two_point_store 0 (1 / 2)))
   \<and> points (table (snd (split_cluster_radii_in_half two_point_store 0 (1 / 2))) ! 0) =
        [\<lparr>get_key = [0], get_value = NO_LORA\<rparr>]
   \<and> points (table (snd (update_cluster two_point_store 0 [2] 3)) ! 0) =
        [\<lparr>get_key = [1], get_value = 0\<rparr>, \<lparr>get_key = [- 1], get_value = 0\<rparr>,
         \<lparr>get_key = [2], get_value = 3\<rparr>]"
proof -
  have ne: "nonempty_clusters two_point_store"
    by (simp add: nonempty_clusters_def two_point_store_def)
  have ok: "fst (split_cluster_radii_in_half two_point_store 0 (1 / 2)) = None"
    by (simp add: split_cluster_radii_in_half_def two_point_store_def stack_def cdist_def
        euclid_single Let_def)
  have none: "filter (in_radius (table two_point_store ! 0) (split_radius two_point_store 0 (1 / 2)))
        (points (table two_point_store ! 0)) = []"
    by (simp add: in_radius_def split_radius_def two_point_store_def euclid_single)
  have len: "0 < length (table two_point_store)"
    by (simp add: two_point_store_def)
  have c: "cluster_center (table two_point_store ! 0) = [0]"
    "points (table two_point_store ! 0) =
       [\<lparr>get_key = [1], get_value = 0\<rparr>, \<lparr>get_key = [- 1], get_value = 0\<rparr>]"
    by (simp_all add: two_point_store_def)
  show ?thesis
    using clusters_never_empty[OF ne, of "[2]" 3 "[]" 0 "1 / 2"] ne ok none len c
    by simp
qed

text \<open>
  Claim C4. When \<^verbatim>\<open>update_cluster(index, key, value)\<close> returns, the cluster holds
  the old points followed by the new one, its center is the arithmetic mean of the keys
  of all its points, component by component, its radius is the larger of the greatest
  distance of a key to that center and the configured \<^verbatim>\<open>init_radius\<close>; so every
  point is within the radius of the center and the radius is at least
  \<^verbatim>\<open>init_radius\<close>. The call returns whenever the index is in range and the new key
  has the size of the keys already in the cluster.
\<close>

theorem update_cluster_center_and_radius:
  assumes "i < length (table db)"
    and "list_all (\<lambda>p. length (get_key p) = length k) (points (table db ! i))"
  shows "fst (update_cluster db i k v) = None
    \<and> (let c' = table (snd (update_cluster db i k v)) ! i;
            ks = map get_key (points c')
        in points c' = points (table db ! i) @ [\<lparr>get_key = k, get_value = v\<rparr>]
         \<and> cluster_center c' = map (\<lambda>j. (\<Sum>key\<leftarrow>ks. key ! j) / real (length ks)) [0 ..< length k]
         \<and> radius c' =
             max (Max ((\<lambda>key. euclid key (cluster_center c')) ` set ks)) (config_init_radius db)
         \<and> (\<forall>p \<in> set (points c'). euclid (get_key p) (cluster_center c') \<le> radius c')
         \<and> config_init_radius db \<le> radius c')"
proof -
  have ok: "fst (update_cluster db i k v) = None"
    using assms by (rule update_cluster_succeeds)
  define c' where "c' = table (snd (update_cluster db i k v)) ! i"
  define ks where "ks = map get_key (points c')"
  have pts: "points c' = points (table db ! i) @ [\<lparr>get_key = k, get_value = v\<rparr>]"
    using update_cluster_success(3)[OF ok] by (simp add: c'_def)
  have cen: "cluster_center c' = map (\<lambda>j. (\<Sum>key\<leftarrow>ks. key ! j) / real (length ks)) [0 ..< length k]"
    using update_cluster_success(5)[OF ok] by (simp add: c'_def ks_def)
  have rad: "radius c' =
      max (Max ((\<lambda>key. euclid key (cluster_center c')) ` set ks)) (config_init_radius db)"
    using update_cluster_success(6)[OF ok] by (simp add: c'_def ks_def)
  have within: "euclid (get_key p) (cluster_center c') \<le> radius c'" if "p \<in> set (points c')" for p
  proof -
    have "euclid (get_key p) (cluster_center c') \<in> (\<lambda>key. euclid key (cluster_center c')) ` set ks"
      using that by (auto simp: ks_def)
    then have "euclid (get_key p) (cluster_center c')
        \<le> Max ((\<lambda>key. euclid key (cluster_center c')) ` set ks)"
      by (intro Max_ge) auto
    then show ?thesis unfolding rad by simp
  qed
  have floor: "config_init_radius db \<le> radius c'"
    unfolding rad by simp
  show ?thesis
    using ok pts cen rad within floor unfolding Let_def c'_def ks_def by blast
qed

theorem update_cluster_center_and_radius_witness:
  "0 < length (table (add_cluster (VecDB_init 1) [1] 0 [5]))
   \<and> list_all (\<lambda>p. length (get_key p) = length [- 1 :: real])
        (points (table (add_cluster (VecDB_init 1) [1] 0 [5]) ! 0))
   \<and> fst (update_cluster (add_cluster (VecDB_init 1) [1] 0 [5]) 0 [- 1] 0) = None
   \<and> cluster_center (table (snd (update_cluster (add_cluster (VecDB_init 1) [1] 0 [5]) 0 [- 1] 0)) ! 0)
        = [0]
   \<and> radius (table (snd (update_cluster (add_cluster (VecDB_init 1) [1] 0 [5]) 0 [- 1] 0)) ! 0) = 1"
proof -
  have a: "0 < length (table (add_cluster (VecDB_init 1) [1] 0 [5]))"
    by (simp add: add_cluster_def VecDB_init_def)
  have b: "list_all (\<lambda>p. length (get_key p) = length [- 1 :: real])
        (points (table (add_cluster (VecDB_init 1) [1] 0 [5]) ! 0))"
    by (simp add: add_cluster_def VecDB_init_def)
  have c: "points (table (add_cluster (VecDB_init 1) [1] 0 [5]) ! 0) = [\<lparr>get_key = [1], get_value = 0\<rparr>]"
    "config_init_radius (add_cluster (VecDB_init 1) [1] 0 [5]) = 1"
    by (simp_all add: add_cluster_def VecDB_init_def)
  show ?thesis
    using update_cluster_center_and_radius[OF a b, of 0] a b c
    by (simp add: Let_def euclid_single)
qed

text \<open>
  Claim C3, at an input where the code departs from it. The store
  \<open>two_point_store\<close> is what three calls of the store's own operations build. A split of
  its first cluster at distance \<open>1 / 2\<close> excludes both points of the cluster: both keys
  go to the forget-list, the cluster is left with the point made of its center and
  \<^verbatim>\<open>NO_LORA\<close>, and \<^verbatim>\<open>forget_num\<close> grows by one, not by the two points excluded,
  because the length of the filtered list is taken after that point was inserted.
\<close>

theorem split_forget_num_counts_one_less:
  "two_point_store =
     add_cluster (snd (update_cluster (add_cluster (VecDB_init 1) [1] 0 [5]) 0 [- 1] 0)) [1 / 2] 1 [6]
   \<and> fst (split_cluster_radii_in_half two_point_store 0 (1 / 2)) = None
   \<and> forget_keys (snd (split_cluster_radii_in_half two_point_store 0 (1 / 2))) = [[1], [- 1]]
   \<and> points (table (snd (split_cluster_radii_in_half two_point_store 0 (1 / 2))) ! 0) =
        [\<lparr>get_key = [0], get_value = NO_LORA\<rparr>]
   \<and> forget_num (snd (split_cluster_radii_in_half two_point_store 0 (1 / 2))) =
        forget_num two_point_store + 1"
proof -
  have "two_point_store =
     add_cluster (snd (update_cluster (add_cluster (VecDB_init 1) [1] 0 [5]) 0 [- 1] 0)) [1 / 2] 1 [6]"
    by (simp add: two_point_store_def add_cluster_def VecDB_init_def update_cluster_def py_sum_def
        tensor_add_def euc_def stack_def cdist_def euclid_single maximum_def py_max_def Let_def)
  moreover have "fst (split_cluster_radii_in_half two_point_store 0 (1 / 2)) = None"
    by (simp add: split_cluster_radii_in_half_def two_point_store_def stack_def cdist_def
        euclid_single Let_def)
  moreover have "forget_keys (snd (split_cluster_radii_in_half two_point_store 0 (1 / 2))) = [[1], [- 1]]"
    by (simp add: split_cluster_radii_in_half_def two_point_store_def stack_def cdist_def
        euclid_single Let_def)
  moreover have "points (table (snd (split_cluster_radii_in_half two_point_store 0 (1 / 2))) ! 0) =
        [\<lparr>get_key = [0], get_value = NO_LORA\<rparr>]"
    by (simp add: split_cluster_radii_in_half_def two_point_store_def stack_def cdist_def
        euclid_single Let_def)
  moreover have "forget_num (snd (split_cluster_radii_in_half two_point_store 0 (1 / 2))) =
        forget_num two_point_store + 1"
    by (simp add: split_cluster_radii_in_half_def two_point_store_def stack_def cdist_def
        euclid_single Let_def)
  ultimately show ?thesis by blast
qed

subsection \<open>Lookup\<close>






subsection \<open>The training-time update of a store that is not empty\<close>

lemma update_step_frame:
  "block_id (snd (update_step st i q d n)) = block_id st
   \<and> edit_label (snd (update_step st i q d n)) = edit_label st
   \<and> init_radius (snd (update_step st i q d n)) = init_radius st
   \<and> lora_block_mapping (snd (update_step st i q d n)) = lora_block_mapping st"
  by (auto simp: update_step_def GraceLayer_add_cluster_def GraceLayer_update_cluster_def Let_def
      split: prod.splits option.splits sum.splits)

lemma update_loop_frame:
  "block_id (snd (update_loop st i qs ds ns)) = block_id st
   \<and> edit_label (snd (update_loop st i qs ds ns)) = edit_label st
   \<and> init_radius (snd (update_loop st i qs ds ns)) = init_radius st
   \<and> lora_block_mapping (snd (update_loop st i qs ds ns)) = lora_block_mapping st"
proof (induction qs arbitrary: st i)
  case Nil
  then show ?case by simp
next
  case (Cons q qs)
  show ?case
  proof (cases "i \<ge> length ns \<or> i \<ge> length ds")
    case True
    then show ?thesis by auto
  next
    case False
    obtain e s1 where st: "update_step st i q (ds ! i) (ns ! i) = (e, s1)"
      by (cases "update_step st i q (ds ! i) (ns ! i)") auto
    have fr: "block_id s1 = block_id st \<and> edit_label s1 = edit_label st
        \<and> init_radius s1 = init_radius st \<and> lora_block_mapping s1 = lora_block_mapping st"
      using update_step_frame[of st i q "ds ! i" "ns ! i"] st by simp
    show ?thesis
    proof (cases e)
      case None
      then show ?thesis using False st fr Cons.IH[of s1 "Suc i"] by simp
    next
      case (Some a)
      then show ?thesis using False st fr by simp
    qed
  qed
qed

lemma update_loop_append:
  "update_loop st i (pre @ post) ds ns =
     (case update_loop st i pre ds ns of
        (Some e, s) \<Rightarrow> (Some e, s)
      | (None, s) \<Rightarrow> update_loop s (i + length pre) post ds ns)"
proof (induction pre arbitrary: st i)
  case Nil
  then show ?case by simp
next
  case (Cons q pre)
  show ?case
  proof (cases "i \<ge> length ns \<or> i \<ge> length ds")
    case True
    then show ?thesis by auto
  next
    case False
    obtain e s1 where st: "update_step st i q (ds ! i) (ns ! i) = (e, s1)"
      by (cases "update_step st i q (ds ! i) (ns ! i)") auto
    show ?thesis
    proof (cases e)
      case None
      then show ?thesis using False st Cons.IH[of s1 "Suc i"]
        by (simp split: prod.splits option.splits)
    next
      case (Some a)
      then show ?thesis using False st by simp
    qed
  qed
qed

lemma update_step_cases:
  assumes ok: "update_step st i q d n = (None, st')"
  defines "row \<equiv> table (VecDB st) ! n"
  shows "n < length (table (VecDB st))"
    and "\<exists>l. read_edit_label st i = Inr l"
    and "d > radius row + init_radius st \<Longrightarrow> read_edit_label st i = Inr l \<Longrightarrow>
           VecDB st' = add_cluster (VecDB st) q (block_id st) l"
    and "\<not> d > radius row + init_radius st \<Longrightarrow> read_edit_label st i = Inr l \<Longrightarrow>
           label_match l (key_label row) \<Longrightarrow>
           update_cluster (VecDB st) n q (block_id st) = (None, VecDB st')"
    and "\<not> d > radius row + init_radius st \<Longrightarrow> read_edit_label st i = Inr l \<Longrightarrow>
           \<not> label_match l (key_label row) \<Longrightarrow>
           split_cluster_radii_in_half (add_cluster (VecDB st) q (block_id st) l) n d
             = (None, VecDB st')"
proof -
  show n: "n < length (table (VecDB st))"
    using ok by (cases "n < length (table (VecDB st))") (auto simp: update_step_def)
  show "\<exists>l. read_edit_label st i = Inr l"
    using ok n
    by (cases "read_edit_label st i")
       (auto simp: update_step_def GraceLayer_add_cluster_def Let_def split: if_splits)
  show "VecDB st' = add_cluster (VecDB st) q (block_id st) l"
    if "d > radius row + init_radius st" "read_edit_label st i = Inr l"
    using ok n that by (auto simp: update_step_def GraceLayer_add_cluster_def Let_def row_def)
  show "update_cluster (VecDB st) n q (block_id st) = (None, VecDB st')"
    if "\<not> d > radius row + init_radius st" "read_edit_label st i = Inr l"
      "label_match l (key_label row)"
    using ok n that
    by (auto simp: update_step_def GraceLayer_update_cluster_def Let_def row_def split: prod.splits)
  show "split_cluster_radii_in_half (add_cluster (VecDB st) q (block_id st) l) n d
          = (None, VecDB st')"
    if "\<not> d > radius row + init_radius st" "read_edit_label st i = Inr l"
      "\<not> label_match l (key_label row)"
    using ok n that
    by (auto simp: update_step_def GraceLayer_add_cluster_def Let_def row_def split: prod.splits)
qed

lemma map_key_label_update:
  "key_label x = key_label (t ! k) \<Longrightarrow> map key_label (t[k := x]) = map key_label t"
  by (cases "k < length t") (simp_all add: map_update list_update_same_conv list_update_beyond)

lemma split_keeps_labels:
  "map key_label (table (snd (split_cluster_radii_in_half db i d))) = map key_label (table db)"
proof (cases "i \<ge> length (table db)")
  case True
  then show ?thesis by (simp add: split_cluster_radii_in_half_def)
next
  case False
  define t1 where "t1 = list_update (table db) i ((table db ! i)\<lparr>radius := d / 2 - 1 / 100000\<rparr>)"
  define t2 where "t2 = list_update t1 (length t1 - 1) ((t1 ! (length t1 - 1))\<lparr>radius := d / 2 + 1 / 100000\<rparr>)"
  have m2: "map key_label t2 = map key_label (table db)"
    by (simp add: t2_def t1_def map_key_label_update)
  have m3: "map key_label (list_update t2 i ((t2 ! i)\<lparr>points := ps\<rparr>)) = map key_label (table db)" for ps
    using m2 by (simp add: map_key_label_update)
  show ?thesis
    using False m2 m3 unfolding t2_def t1_def
    by (auto simp: split_cluster_radii_in_half_def Let_def split: sum.splits prod.splits)
qed

text \<open>
  What the three branches of the loop body do to the store: a cluster of its own for the
  example, at the end of the table; or the example as one more point of the cluster, with
  the table as long as before; or a cluster of its own and the two radii set from the
  distance, with one more conflict counted.
\<close>

lemma update_step_effects:
  assumes ok: "update_step st i q d n = (None, st')"
    and l: "read_edit_label st i = Inr l"
  defines "row \<equiv> table (VecDB st) ! n"
  shows "d > radius row + init_radius st \<Longrightarrow>
           VecDB st' = add_cluster (VecDB st) q (block_id st) l
         \<and> table (VecDB st') = table (VecDB st) @
             [\<lparr>cluster_center = q, radius = config_init_radius (VecDB st), key_label = l,
               points = [\<lparr>get_key = q, get_value = block_id st\<rparr>]\<rparr>]
         \<and> conflict_num (VecDB st') = conflict_num (VecDB st)"
    and "\<not> d > radius row + init_radius st \<Longrightarrow> label_match l (key_label row) \<Longrightarrow>
           update_cluster (VecDB st) n q (block_id st) = (None, VecDB st')
         \<and> length (table (VecDB st')) = length (table (VecDB st))
         \<and> points (table (VecDB st') ! n) = points row @ [\<lparr>get_key = q, get_value = block_id st\<rparr>]
         \<and> key_label (table (VecDB st') ! n) = key_label row
         \<and> conflict_num (VecDB st') = conflict_num (VecDB st)"
    and "\<not> d > radius row + init_radius st \<Longrightarrow> \<not> label_match l (key_label row) \<Longrightarrow>
           split_cluster_radii_in_half (add_cluster (VecDB st) q (block_id st) l) n d
             = (None, VecDB st')
         \<and> length (table (VecDB st')) = length (table (VecDB st)) + 1
         \<and> radius (table (VecDB st') ! n) = d / 2 - 1 / 100000
         \<and> radius (last (table (VecDB st'))) = d / 2 + 1 / 100000
         \<and> key_label (last (table (VecDB st'))) = l
         \<and> conflict_num (VecDB st') = conflict_num (VecDB st) + 1"
proof -
  note c = update_step_cases[OF ok]
  have n: "n < length (table (VecDB st))" by (rule c(1))
  show "VecDB st' = add_cluster (VecDB st) q (block_id st) l
         \<and> table (VecDB st') = table (VecDB st) @
             [\<lparr>cluster_center = q, radius = config_init_radius (VecDB st), key_label = l,
               points = [\<lparr>get_key = q, get_value = block_id st\<rparr>]\<rparr>]
         \<and> conflict_num (VecDB st') = conflict_num (VecDB st)"
    if "d > radius row + init_radius st"
    using c(3)[OF _ l] that by (simp add: row_def add_cluster_def)
  show "update_cluster (VecDB st) n q (block_id st) = (None, VecDB st')
         \<and> length (table (VecDB st')) = length (table (VecDB st))
         \<and> points (table (VecDB st') ! n) = points row @ [\<lparr>get_key = q, get_value = block_id st\<rparr>]
         \<and> key_label (table (VecDB st') ! n) = key_label row
         \<and> conflict_num (VecDB st') = conflict_num (VecDB st)"
    if a: "\<not> d > radius row + init_radius st" and b: "label_match l (key_label row)"
  proof -
    have u: "update_cluster (VecDB st) n q (block_id st) = (None, VecDB st')"
      using c(4)[OF _ l] a b by (simp add: row_def)
    then have f: "fst (update_cluster (VecDB st) n q (block_id st)) = None"
      and s: "snd (update_cluster (VecDB st) n q (block_id st)) = VecDB st'"
      by simp_all
    show ?thesis
      using u update_cluster_success(2,3,7,8)[OF f] unfolding s by (simp add: row_def)
  qed
  show "split_cluster_radii_in_half (add_cluster (VecDB st) q (block_id st) l) n d
             = (None, VecDB st')
         \<and> length (table (VecDB st')) = length (table (VecDB st)) + 1
         \<and> radius (table (VecDB st') ! n) = d / 2 - 1 / 100000
         \<and> radius (last (table (VecDB st'))) = d / 2 + 1 / 100000
         \<and> key_label (last (table (VecDB st'))) = l
         \<and> conflict_num (VecDB st') = conflict_num (VecDB st) + 1"
    if a: "\<not> d > radius row + init_radius st" and b: "\<not> label_match l (key_label row)"
  proof -
    define db where "db = add_cluster (VecDB st) q (block_id st) l"
    have sp: "split_cluster_radii_in_half db n d = (None, VecDB st')"
      using c(5)[OF _ l] a b by (simp add: row_def db_def)
    then have f: "fst (split_cluster_radii_in_half db n d) = None"
      and s: "snd (split_cluster_radii_in_half db n d) = VecDB st'"
      by simp_all
    have len: "length (table db) = length (table (VecDB st)) + 1"
      by (simp add: db_def add_cluster_def)
    have n': "n < length (table db)" "n \<noteq> length (table db) - 1"
      using n len by simp_all
    have cn: "conflict_num db = conflict_num (VecDB st)"
      by (simp add: db_def add_cluster_def)
    have lastdb: "key_label (table db ! (length (table db) - 1)) = l"
      by (simp add: db_def add_cluster_def)
    have r: "radius (table (VecDB st') ! n) = d / 2 - 1 / 100000"
      using split_success(2)[OF n'(1) f] n'(2) unfolding s by (simp add: split_radius_def)
    have len': "length (table (VecDB st')) = length (table db)"
      using split_success(1)[OF n'(1) f] unfolding s .
    have rl: "radius (last (table (VecDB st'))) = d / 2 + 1 / 100000"
      using split_success(9)[OF n'(1) f n'(2)] unfolding s .
    have cf: "conflict_num (VecDB st') = conflict_num db + 1"
      using split_success(8)[OF n'(1) f] unfolding s .
    have "map key_label (table (VecDB st')) = map key_label (table db)"
      using split_keeps_labels[of db n d] unfolding s .
    then have "map key_label (table (VecDB st')) ! (length (table db) - 1) =
        map key_label (table db) ! (length (table db) - 1)"
      by simp
    then have "key_label (table (VecDB st') ! (length (table db) - 1)) = l"
      using lastdb len len' by simp
    moreover have "table (VecDB st') \<noteq> []"
      using len len' by auto
    ultimately have kl: "key_label (last (table (VecDB st'))) = l"
      using len' by (simp add: last_conv_nth)
    show ?thesis
      using sp len len' r rl cf cn kl unfolding db_def by simp
  qed
qed

lemma update_loop_at:
  assumes ok: "fst (update_loop st 0 qs ds ns) = None"
    and j: "j < length qs"
  shows "\<exists>s1 s2.
      update_loop st 0 (take j qs) ds ns = (None, s1)
    \<and> update_step s1 j (qs ! j) (ds ! j) (ns ! j) = (None, s2)
    \<and> update_loop s2 (Suc j) (drop (Suc j) qs) ds ns = update_loop st 0 qs ds ns
    \<and> block_id s1 = block_id st \<and> edit_label s1 = edit_label st
    \<and> init_radius s1 = init_radius st"
proof -
  define pre where "pre = take j qs"
  define post where "post = drop (Suc j) qs"
  have qs: "qs = pre @ (qs ! j) # post"
    using j by (simp add: pre_def post_def id_take_nth_drop)
  have lpre: "length pre = j" using j by (simp add: pre_def)
  obtain e1 s1 where l1: "update_loop st 0 pre ds ns = (e1, s1)"
    by (cases "update_loop st 0 pre ds ns") auto
  have whole: "update_loop st 0 qs ds ns =
     (case update_loop st 0 pre ds ns of
        (Some e, s) \<Rightarrow> (Some e, s)
      | (None, s) \<Rightarrow> update_loop s j ((qs ! j) # post) ds ns)"
  proof -
    have "update_loop st 0 (pre @ (qs ! j) # post) ds ns =
       (case update_loop st 0 pre ds ns of
          (Some e, s) \<Rightarrow> (Some e, s)
        | (None, s) \<Rightarrow> update_loop s j ((qs ! j) # post) ds ns)"
      unfolding update_loop_append[of st 0 pre "(qs ! j) # post" ds ns] lpre
      by (simp split: prod.splits option.splits)
    then show ?thesis unfolding qs[symmetric] .
  qed
  have e1: "e1 = None"
    using ok unfolding whole l1 by (cases e1) auto
  have rest: "update_loop st 0 qs ds ns = update_loop s1 j ((qs ! j) # post) ds ns"
    unfolding whole l1 e1 by simp
  have inr: "\<not> (j \<ge> length ns \<or> j \<ge> length ds)"
    using ok unfolding rest by (cases "j \<ge> length ns \<or> j \<ge> length ds") auto
  obtain e2 s2 where l2: "update_step s1 j (qs ! j) (ds ! j) (ns ! j) = (e2, s2)"
    by (cases "update_step s1 j (qs ! j) (ds ! j) (ns ! j)") auto
  have e2: "e2 = None"
    using ok inr unfolding rest by (cases e2) (auto simp: l2)
  have tail: "update_loop s2 (Suc j) post ds ns = update_loop st 0 qs ds ns"
    unfolding rest using inr l2 e2 by simp
  have fr: "block_id s1 = block_id st" "edit_label s1 = edit_label st" "init_radius s1 = init_radius st"
    using update_loop_frame[of st 0 pre ds ns] l1 by simp_all
  have step: "update_step s1 j (qs ! j) (ds ! j) (ns ! j) = (None, s2)"
    using l2 e2 by simp
  show ?thesis
    apply (rule exI[of _ s1], rule exI[of _ s2])
    using l1 e1 step tail fr
    by (simp add: pre_def post_def)
qed

text \<open>
  The search that \<^verbatim>\<open>forward\<close> runs before the loop: for every query of the batch, the
  smallest of its distances to the centers of the clusters of the store as it is then,
  and the first cluster at that distance.
\<close>

lemma center_dists_Inr:
  "center_dists cs qs = Inr dists \<Longrightarrow>
     dists = map (\<lambda>c. map (\<lambda>q. euclid q (cluster_center c)) qs) cs"
proof (induction cs arbitrary: dists)
  case Nil
  then show ?case by simp
next
  case (Cons c cs)
  obtain row where r: "cdist qs (cluster_center c) = Inr row"
    using Cons.prems by (cases "cdist qs (cluster_center c)") auto
  obtain rows where rs: "center_dists cs qs = Inr rows"
    using Cons.prems r by (cases "center_dists cs qs") auto
  have "dists = row # rows" using Cons.prems r rs by simp
  moreover have "row = map (\<lambda>q. euclid q (cluster_center c)) qs"
    using r by (simp add: cdist_Inr)
  ultimately show ?case using Cons.IH[OF rs] by simp
qed

lemma search_database_Inr:
  assumes s: "search_database db qs = Inr (ds, ns)"
  shows "length ds = length qs" and "length ns = length qs"
    and "j < length qs \<Longrightarrow> ds ! j = minimum (nearest_distances db (qs ! j))"
    and "j < length qs \<Longrightarrow> ns ! j = argmin (nearest_distances db (qs ! j))"
    and "j < length qs \<Longrightarrow> ns ! j < length (table db)"
proof -
  obtain dists where cd: "center_dists (table db) qs = Inr dists"
    using s by (cases "center_dists (table db) qs") (auto simp: search_database_def)
  have dists: "dists = map (\<lambda>c. map (\<lambda>q. euclid q (cluster_center c)) qs) (table db)"
    using center_dists_Inr[OF cd] .
  have ne: "dists \<noteq> []" "qs \<noteq> []"
    using s cd by (auto simp: search_database_def split: if_splits)
  have res: "ds = map minimum (map (\<lambda>b. map (\<lambda>row. row ! b) dists) [0 ..< length qs])"
    "ns = map argmin (map (\<lambda>b. map (\<lambda>row. row ! b) dists) [0 ..< length qs])"
    using s cd ne by (auto simp: search_database_def Let_def)
  show "length ds = length qs" "length ns = length qs"
    by (simp_all add: res)
  have col: "map (\<lambda>row. row ! j) dists = nearest_distances db (qs ! j)" if "j < length qs"
    using that by (simp add: dists nearest_distances_def)
  show "ds ! j = minimum (nearest_distances db (qs ! j))" if "j < length qs"
    using that col[OF that] by (simp add: res)
  show a: "ns ! j = argmin (nearest_distances db (qs ! j))" if "j < length qs"
    using that col[OF that] by (simp add: res)
  show "ns ! j < length (table db)" if "j < length qs"
  proof -
    have "nearest_distances db (qs ! j) \<noteq> []"
      using ne(1) by (simp add: dists nearest_distances_def)
    from argmin_less[OF this] show ?thesis
      using a[OF that] by (simp add: nearest_distances_def)
  qed
qed

lemma search_Inr:
  "search st qs = Inr (ds, ns, m) \<Longrightarrow> search_database (VecDB st) qs = Inr (ds, ns)"
  by (auto simp: search_def split: sum.splits)

lemma label_match_same: "label_match [5] [5]"
  by (simp add: label_match_def masked_fill_def)

lemma label_match_differ: "\<not> label_match [7] [5]"
  by (simp add: label_match_def masked_fill_def)

text \<open>
  The sum of the labels wraps around as \<^verbatim>\<open>torch.sum\<close> does: two labels whose exact
  sums differ by \<open>2 ^ 64\<close> match.
\<close>

lemma label_match_wraps: "label_match [2 ^ 62, 2 ^ 62] [- (2 ^ 63)]"
  by (simp add: label_match_def masked_fill_def)

lemma batch_search:
  "search_database (VecDB batch_layer) [[10], [1 / 4], [1 / 2]] = Inr ([10, 1 / 4, 1 / 2], [0, 0, 0])"
  by (simp add: batch_layer_def add_cluster_def VecDB_init_def search_database_def cdist_def
      euclid_single minimum_def argmin_def upt_rec Let_def)

lemma batch_first:
  "update_step (batch_layer\<lparr>lora_block_mapping := [1, 1, 1]\<rparr>) 0 [10] 10 0 =
     (None, batch_layer\<lparr>lora_block_mapping := [1, 1, 1], VecDB :=
        \<lparr>config_init_radius = 1,
         table =
           [\<lparr>cluster_center = [0], radius = 1, key_label = [5],
             points = [\<lparr>get_key = [0], get_value = 0\<rparr>]\<rparr>,
            \<lparr>cluster_center = [10], radius = 1, key_label = [5],
             points = [\<lparr>get_key = [10], get_value = 1\<rparr>]\<rparr>],
         forget_num = 0, conflict_num = 0, forget_keys = []\<rparr>\<rparr>)"
  by (simp add: batch_layer_def update_step_def GraceLayer_add_cluster_def read_edit_label_def
      add_cluster_def VecDB_init_def Let_def)

lemma batch_second:
  "update_step (batch_layer\<lparr>lora_block_mapping := [1, 1, 1], VecDB :=
        \<lparr>config_init_radius = 1,
         table =
           [\<lparr>cluster_center = [0], radius = 1, key_label = [5],
             points = [\<lparr>get_key = [0], get_value = 0\<rparr>]\<rparr>,
            \<lparr>cluster_center = [10], radius = 1, key_label = [5],
             points = [\<lparr>get_key = [10], get_value = 1\<rparr>]\<rparr>],
         forget_num = 0, conflict_num = 0, forget_keys = []\<rparr>\<rparr>) 1 [1 / 4] (1 / 4) 0 =
     (None, batch_layer\<lparr>lora_block_mapping := [1, 1, 1], VecDB :=
        \<lparr>config_init_radius = 1,
         table =
           [\<lparr>cluster_center = [1 / 8], radius = 1, key_label = [5],
             points = [\<lparr>get_key = [0], get_value = 0\<rparr>, \<lparr>get_key = [1 / 4], get_value = 1\<rparr>]\<rparr>,
            \<lparr>cluster_center = [10], radius = 1, key_label = [5],
             points = [\<lparr>get_key = [10], get_value = 1\<rparr>]\<rparr>],
         forget_num = 0, conflict_num = 0, forget_keys = []\<rparr>\<rparr>)"
  by (simp add: batch_layer_def update_step_def GraceLayer_update_cluster_def read_edit_label_def
      label_match_same update_cluster_def py_sum_def tensor_add_def euc_def stack_def cdist_def
      euclid_single maximum_def py_max_def Let_def)

lemma batch_third:
  "update_step (batch_layer\<lparr>lora_block_mapping := [1, 1, 1], VecDB :=
        \<lparr>config_init_radius = 1,
         table =
           [\<lparr>cluster_center = [1 / 8], radius = 1, key_label = [5],
             points = [\<lparr>get_key = [0], get_value = 0\<rparr>, \<lparr>get_key = [1 / 4], get_value = 1\<rparr>]\<rparr>,
            \<lparr>cluster_center = [10], radius = 1, key_label = [5],
             points = [\<lparr>get_key = [10], get_value = 1\<rparr>]\<rparr>],
         forget_num = 0, conflict_num = 0, forget_keys = []\<rparr>\<rparr>) 2 [1 / 2] (1 / 2) 0 =
     (None, batch_layer\<lparr>lora_block_mapping := [1, 1, 1], VecDB :=
        \<lparr>config_init_radius = 1,
         table =
           [\<lparr>cluster_center = [1 / 8], radius = 1 / 4 - 1 / 100000, key_label = [5],
             points = [\<lparr>get_key = [0], get_value = 0\<rparr>, \<lparr>get_key = [1 / 4], get_value = 1\<rparr>]\<rparr>,
            \<lparr>cluster_center = [10], radius = 1, key_label = [5],
             points = [\<lparr>get_key = [10], get_value = 1\<rparr>]\<rparr>,
            \<lparr>cluster_center = [1 / 2], radius = 1 / 4 + 1 / 100000, key_label = [7],
             points = [\<lparr>get_key = [1 / 2], get_value = 1\<rparr>]\<rparr>],
         forget_num = 0, conflict_num = 1, forget_keys = []\<rparr>\<rparr>)"
  by (simp add: batch_layer_def update_step_def GraceLayer_add_cluster_def read_edit_label_def
      label_match_differ add_cluster_def split_cluster_radii_in_half_def stack_def cdist_def
      euclid_single Let_def)

lemma batch_forward:
  "GraceLinear_forward batch_layer [[10], [1 / 4], [1 / 2]] =
     (None, batch_layer\<lparr>lora_block_mapping := [1, 1, 1], block_id := 2,
        LORA_BLOCK_MAPPING := [1, 1, 1], VecDB :=
        \<lparr>config_init_radius = 1,
         table =
           [\<lparr>cluster_center = [1 / 8], radius = 1 / 4 - 1 / 100000, key_label = [5],
             points = [\<lparr>get_key = [0], get_value = 0\<rparr>, \<lparr>get_key = [1 / 4], get_value = 1\<rparr>]\<rparr>,
            \<lparr>cluster_center = [10], radius = 1, key_label = [5],
             points = [\<lparr>get_key = [10], get_value = 1\<rparr>]\<rparr>,
            \<lparr>cluster_center = [1 / 2], radius = 1 / 4 + 1 / 100000, key_label = [7],
             points = [\<lparr>get_key = [1 / 2], get_value = 1\<rparr>]\<rparr>],
         forget_num = 0, conflict_num = 1, forget_keys = []\<rparr>\<rparr>)"
proof -
  have m: "search_cluster (VecDB batch_layer) [[10], [1 / 4], [1 / 2]] [10, 1 / 4, 1 / 2] [0, 0, 0]
      = Inr [NO_LORA, 0, 0]"
    by (simp add: batch_layer_def add_cluster_def VecDB_init_def search_cluster_def search_one_def
        euc_def stack_def cdist_def euclid_single argmin_def minimum_def Let_def)
  have s: "search batch_layer [[10], [1 / 4], [1 / 2]] = Inr ([10, 1 / 4, 1 / 2], [0, 0, 0], [NO_LORA, 0, 0])"
    by (simp add: search_def batch_search m)
  have f: "\<not> disable_grace batch_layer" "table (VecDB batch_layer) \<noteq> []" "training batch_layer"
    "batch_iter batch_layer = Some 0" "block_id batch_layer = 1"
    by (simp_all add: batch_layer_def add_cluster_def)
  have l: "update_loop (batch_layer\<lparr>lora_block_mapping := [1, 1, 1]\<rparr>) 0 [[10], [1 / 4], [1 / 2]]
      [10, 1 / 4, 1 / 2] [0, 0, 0] =
     (None, batch_layer\<lparr>lora_block_mapping := [1, 1, 1], VecDB :=
        \<lparr>config_init_radius = 1,
         table =
           [\<lparr>cluster_center = [1 / 8], radius = 1 / 4 - 1 / 100000, key_label = [5],
             points = [\<lparr>get_key = [0], get_value = 0\<rparr>, \<lparr>get_key = [1 / 4], get_value = 1\<rparr>]\<rparr>,
            \<lparr>cluster_center = [10], radius = 1, key_label = [5],
             points = [\<lparr>get_key = [10], get_value = 1\<rparr>]\<rparr>,
            \<lparr>cluster_center = [1 / 2], radius = 1 / 4 + 1 / 100000, key_label = [7],
             points = [\<lparr>get_key = [1 / 2], get_value = 1\<rparr>]\<rparr>],
         forget_num = 0, conflict_num = 1, forget_keys = []\<rparr>\<rparr>)"
    by (simp add: batch_first batch_second[unfolded One_nat_def]
        batch_third[unfolded numeral_2_eq_2])
  show ?thesis
    using f s l by (simp add: GraceLinear_forward_def batch_layer_def)
qed

text \<open>
  Claim C1. In a training pass with \<^verbatim>\<open>batch_iter == 0\<close> on a store that is not
  empty, if the pass runs to its end, the search before the loop returned, for every
  example \<open>j\<close> of the batch, the smallest distance \<open>d\<close> of the example to the centers
  of the clusters of the store as it was before the loop and the first cluster \<open>n\<close> at
  that distance. The example goes through the loop body once, in the state \<open>s1\<close> left
  by the examples before it, with the block counter \<open>v\<close> of the start of the pass, and
  exactly one of three things happens, decided in this order. If \<open>d\<close> exceeds the radius
  that cluster \<open>n\<close> has in \<open>s1\<close> plus \<^verbatim>\<open>init_radius\<close>, a new cluster is added at the
  end of the table for the example, whatever its label. Otherwise, if its label matches
  the label of cluster \<open>n\<close> (equal 64-bit sums after masking \<open>-100\<close>),
  \<^verbatim>\<open>update_cluster\<close> appends the example to cluster \<open>n\<close> with value \<open>v\<close> and the
  table keeps its length. Otherwise a new cluster is added for the example and
  \<^verbatim>\<open>split_cluster_radii_in_half\<close> is applied to cluster \<open>n\<close> with the distance
  \<open>d\<close>. After the loop the block counter is \<open>v + 1\<close>.
\<close>

theorem forward_update_three_way:
  assumes on: "\<not> disable_grace st" and ne: "table (VecDB st) \<noteq> []"
    and tr: "training st" and it: "batch_iter st = Some 0"
    and ok: "fst (GraceLinear_forward st qs) = None"
    and j: "j < length qs"
  shows "\<exists>ds ns s1 s2 s3 l.
      search_database (VecDB st) qs = Inr (ds, ns)
    \<and> ds ! j = minimum (nearest_distances (VecDB st) (qs ! j))
    \<and> ns ! j = argmin (nearest_distances (VecDB st) (qs ! j))
    \<and> update_loop (st\<lparr>lora_block_mapping := replicate (length qs) (block_id st)\<rparr>) 0
         (take j qs) ds ns = (None, s1)
    \<and> update_step s1 j (qs ! j) (ds ! j) (ns ! j) = (None, s2)
    \<and> update_loop s2 (Suc j) (drop (Suc j) qs) ds ns = (None, s3)
    \<and> snd (GraceLinear_forward st qs) =
         s3\<lparr>block_id := block_id st + 1,
            LORA_BLOCK_MAPPING := replicate (length qs) (block_id st)\<rparr>
    \<and> block_id s1 = block_id st \<and> init_radius s1 = init_radius st
    \<and> read_edit_label st j = Inr l
    \<and> ns ! j < length (table (VecDB s1))
    \<and> (let n = ns ! j; d = ds ! j; q = qs ! j; v = block_id st; row = table (VecDB s1) ! n
        in (d > radius row + init_radius st \<longrightarrow>
              VecDB s2 = add_cluster (VecDB s1) q v l
            \<and> table (VecDB s2) = table (VecDB s1) @
                 [\<lparr>cluster_center = q, radius = config_init_radius (VecDB s1), key_label = l,
                   points = [\<lparr>get_key = q, get_value = v\<rparr>]\<rparr>])
         \<and> (\<not> d > radius row + init_radius st \<and> label_match l (key_label row) \<longrightarrow>
              update_cluster (VecDB s1) n q v = (None, VecDB s2)
            \<and> length (table (VecDB s2)) = length (table (VecDB s1))
            \<and> points (table (VecDB s2) ! n) = points row @ [\<lparr>get_key = q, get_value = v\<rparr>])
         \<and> (\<not> d > radius row + init_radius st \<and> \<not> label_match l (key_label row) \<longrightarrow>
              split_cluster_radii_in_half (add_cluster (VecDB s1) q v l) n d = (None, VecDB s2)
            \<and> length (table (VecDB s2)) = length (table (VecDB s1)) + 1
            \<and> key_label (last (table (VecDB s2))) = l
            \<and> radius (table (VecDB s2) ! n) = d / 2 - 1 / 100000
            \<and> radius (last (table (VecDB s2))) = d / 2 + 1 / 100000
            \<and> conflict_num (VecDB s2) = conflict_num (VecDB s1) + 1))"
proof -
  define st0 where "st0 = st\<lparr>lora_block_mapping := replicate (length qs) (block_id st)\<rparr>"
  obtain ds ns m where s: "search st qs = Inr (ds, ns, m)"
    using on ne ok by (cases "search st qs") (auto simp: GraceLinear_forward_def)
  have fw: "GraceLinear_forward st qs =
     (case update_loop st0 0 qs ds ns of
        (Some e, s) \<Rightarrow> (Some e, s)
      | (None, s) \<Rightarrow>
          (None, s\<lparr>block_id := block_id s + 1, LORA_BLOCK_MAPPING := lora_block_mapping s\<rparr>))"
    using on ne tr it s by (simp add: GraceLinear_forward_def st0_def)
  obtain e s3 where l3: "update_loop st0 0 qs ds ns = (e, s3)"
    by (cases "update_loop st0 0 qs ds ns") auto
  have e: "e = None"
    using ok unfolding fw l3 by (cases e) auto
  have res: "snd (GraceLinear_forward st qs) =
      s3\<lparr>block_id := block_id s3 + 1, LORA_BLOCK_MAPPING := lora_block_mapping s3\<rparr>"
    unfolding fw l3 e by simp
  have fr3: "block_id s3 = block_id st" "lora_block_mapping s3 = replicate (length qs) (block_id st)"
    using update_loop_frame[of st0 0 qs ds ns] l3 by (simp_all add: st0_def)
  have ok0: "fst (update_loop st0 0 qs ds ns) = None"
    using l3 e by simp
  obtain s1 s2 where
    l1: "update_loop st0 0 (take j qs) ds ns = (None, s1)"
    and l2: "update_step s1 j (qs ! j) (ds ! j) (ns ! j) = (None, s2)"
    and l4: "update_loop s2 (Suc j) (drop (Suc j) qs) ds ns = update_loop st0 0 qs ds ns"
    and fr: "block_id s1 = block_id st0" "edit_label s1 = edit_label st0"
      "init_radius s1 = init_radius st0"
    using update_loop_at[OF ok0 j] by blast
  have fr': "block_id s1 = block_id st" "init_radius s1 = init_radius st"
    "read_edit_label s1 j = read_edit_label st j"
    using fr by (simp_all add: st0_def read_edit_label_def)
  obtain l where l: "read_edit_label s1 j = Inr l"
    using update_step_cases(2)[OF l2] by blast
  have sd: "search_database (VecDB st) qs = Inr (ds, ns)"
    using search_Inr[OF s] .
  note sr = search_database_Inr(3,4)[OF sd j]
  have n: "ns ! j < length (table (VecDB s1))"
    using update_step_cases(1)[OF l2] .
  note eff = update_step_effects[OF l2 l]
  have three: "let n = ns ! j; d = ds ! j; q = qs ! j; v = block_id st; row = table (VecDB s1) ! n
        in (d > radius row + init_radius st \<longrightarrow>
              VecDB s2 = add_cluster (VecDB s1) q v l
            \<and> table (VecDB s2) = table (VecDB s1) @
                 [\<lparr>cluster_center = q, radius = config_init_radius (VecDB s1), key_label = l,
                   points = [\<lparr>get_key = q, get_value = v\<rparr>]\<rparr>])
         \<and> (\<not> d > radius row + init_radius st \<and> label_match l (key_label row) \<longrightarrow>
              update_cluster (VecDB s1) n q v = (None, VecDB s2)
            \<and> length (table (VecDB s2)) = length (table (VecDB s1))
            \<and> points (table (VecDB s2) ! n) = points row @ [\<lparr>get_key = q, get_value = v\<rparr>])
         \<and> (\<not> d > radius row + init_radius st \<and> \<not> label_match l (key_label row) \<longrightarrow>
              split_cluster_radii_in_half (add_cluster (VecDB s1) q v l) n d = (None, VecDB s2)
            \<and> length (table (VecDB s2)) = length (table (VecDB s1)) + 1
            \<and> key_label (last (table (VecDB s2))) = l
            \<and> radius (table (VecDB s2) ! n) = d / 2 - 1 / 100000
            \<and> radius (last (table (VecDB s2))) = d / 2 + 1 / 100000
            \<and> conflict_num (VecDB s2) = conflict_num (VecDB s1) + 1)"
    using eff unfolding fr' Let_def by blast
  have a: "update_loop (st\<lparr>lora_block_mapping := replicate (length qs) (block_id st)\<rparr>) 0
         (take j qs) ds ns = (None, s1)"
    using l1 by (simp add: st0_def)
  have b: "update_loop s2 (Suc j) (drop (Suc j) qs) ds ns = (None, s3)"
    using l4 l3 e by simp
  have c: "snd (GraceLinear_forward st qs) =
         s3\<lparr>block_id := block_id st + 1,
            LORA_BLOCK_MAPPING := replicate (length qs) (block_id st)\<rparr>"
    using res fr3 by simp
  have d: "read_edit_label st j = Inr l"
    using l fr'(3) by simp
  show ?thesis
    apply (rule exI[of _ ds], rule exI[of _ ns], rule exI[of _ s1], rule exI[of _ s2],
        rule exI[of _ s3], rule exI[of _ l])
    using sd sr a l2 b c fr'(1,2) d n three by blast
qed

theorem forward_update_three_way_witness:
  "\<not> disable_grace batch_layer \<and> table (VecDB batch_layer) \<noteq> [] \<and> training batch_layer
   \<and> batch_iter batch_layer = Some 0
   \<and> fst (GraceLinear_forward batch_layer [[10], [1 / 4], [1 / 2]]) = None
   \<and> (1 :: nat) < length [[10 :: real], [1 / 4], [1 / 2]]
   \<and> search_database (VecDB batch_layer) [[10], [1 / 4], [1 / 2]] = Inr ([10, 1 / 4, 1 / 2], [0, 0, 0])
   \<and> (\<exists>s1 s2.
        update_loop (batch_layer\<lparr>lora_block_mapping := [1, 1, 1]\<rparr>) 0 [[10]]
          [10, 1 / 4, 1 / 2] [0, 0, 0] = (None, s1)
      \<and> length (table (VecDB s1)) = 2
      \<and> points (table (VecDB s1) ! 0) = [\<lparr>get_key = [0], get_value = 0\<rparr>]
      \<and> update_step s1 1 [1 / 4] (1 / 4) 0 = (None, s2)
      \<and> update_cluster (VecDB s1) 0 [1 / 4] 1 = (None, VecDB s2)
      \<and> length (table (VecDB s2)) = 2
      \<and> points (table (VecDB s2) ! 0) =
          [\<lparr>get_key = [0], get_value = 0\<rparr>, \<lparr>get_key = [1 / 4], get_value = 1\<rparr>])
   \<and> block_id (snd (GraceLinear_forward batch_layer [[10], [1 / 4], [1 / 2]])) = 2
   \<and> conflict_num (VecDB (snd (GraceLinear_forward batch_layer [[10], [1 / 4], [1 / 2]]))) = 1
   \<and> map points (table (VecDB (snd (GraceLinear_forward batch_layer [[10], [1 / 4], [1 / 2]])))) =
       [[\<lparr>get_key = [0], get_value = 0\<rparr>, \<lparr>get_key = [1 / 4], get_value = 1\<rparr>],
        [\<lparr>get_key = [10], get_value = 1\<rparr>],
        [\<lparr>get_key = [1 / 2], get_value = 1\<rparr>]]"
proof -
  have f: "\<not> disable_grace batch_layer" "table (VecDB batch_layer) \<noteq> []" "training batch_layer"
    "batch_iter batch_layer = Some 0"
    by (simp_all add: batch_layer_def add_cluster_def)
  have v: "block_id batch_layer = 1" "init_radius batch_layer = 1"
    by (simp_all add: batch_layer_def)
  have ok: "fst (GraceLinear_forward batch_layer [[10], [1 / 4], [1 / 2]]) = None"
    unfolding batch_forward by simp
  have j: "(1 :: nat) < length [[10 :: real], [1 / 4], [1 / 2]]"
    by simp
  have fin: "block_id (snd (GraceLinear_forward batch_layer [[10], [1 / 4], [1 / 2]])) = 2"
    "conflict_num (VecDB (snd (GraceLinear_forward batch_layer [[10], [1 / 4], [1 / 2]]))) = 1"
    "map points (table (VecDB (snd (GraceLinear_forward batch_layer [[10], [1 / 4], [1 / 2]])))) =
       [[\<lparr>get_key = [0], get_value = 0\<rparr>, \<lparr>get_key = [1 / 4], get_value = 1\<rparr>],
        [\<lparr>get_key = [10], get_value = 1\<rparr>],
        [\<lparr>get_key = [1 / 2], get_value = 1\<rparr>]]"
    unfolding batch_forward by simp_all
  obtain ds ns s1 s2 l where
    sd: "search_database (VecDB batch_layer) [[10], [1 / 4], [1 / 2]] = Inr (ds, ns)"
    and l1: "update_loop (batch_layer\<lparr>lora_block_mapping :=
               replicate (length [[10 :: real], [1 / 4], [1 / 2]]) (block_id batch_layer)\<rparr>) 0
             (take 1 [[10], [1 / 4], [1 / 2]]) ds ns = (None, s1)"
    and l2: "update_step s1 1 ([[10], [1 / 4], [1 / 2]] ! 1) (ds ! 1) (ns ! 1) = (None, s2)"
    and lab: "read_edit_label batch_layer 1 = Inr l"
    and three: "let n = ns ! 1; d = ds ! 1; q = [[10], [1 / 4], [1 / 2]] ! 1;
            v = block_id batch_layer; row = table (VecDB s1) ! n
        in (d > radius row + init_radius batch_layer \<longrightarrow>
              VecDB s2 = add_cluster (VecDB s1) q v l
            \<and> table (VecDB s2) = table (VecDB s1) @
                 [\<lparr>cluster_center = q, radius = config_init_radius (VecDB s1), key_label = l,
                   points = [\<lparr>get_key = q, get_value = v\<rparr>]\<rparr>])
         \<and> (\<not> d > radius row + init_radius batch_layer \<and> label_match l (key_label row) \<longrightarrow>
              update_cluster (VecDB s1) n q v = (None, VecDB s2)
            \<and> length (table (VecDB s2)) = length (table (VecDB s1))
            \<and> points (table (VecDB s2) ! n) = points row @ [\<lparr>get_key = q, get_value = v\<rparr>])
         \<and> (\<not> d > radius row + init_radius batch_layer \<and> \<not> label_match l (key_label row) \<longrightarrow>
              split_cluster_radii_in_half (add_cluster (VecDB s1) q v l) n d = (None, VecDB s2)
            \<and> length (table (VecDB s2)) = length (table (VecDB s1)) + 1
            \<and> key_label (last (table (VecDB s2))) = l
            \<and> radius (table (VecDB s2) ! n) = d / 2 - 1 / 100000
            \<and> radius (last (table (VecDB s2))) = d / 2 + 1 / 100000
            \<and> conflict_num (VecDB s2) = conflict_num (VecDB s1) + 1)"
    using forward_update_three_way[OF f ok j] by blast
  have dn: "ds = [10, 1 / 4, 1 / 2]" "ns = [0, 0, 0]"
    using sd unfolding batch_search by simp_all
  have l: "l = [5]"
    using lab by (simp add: read_edit_label_def batch_layer_def)
  have l1': "update_loop (batch_layer\<lparr>lora_block_mapping := [1, 1, 1]\<rparr>) 0 [[10]]
          [10, 1 / 4, 1 / 2] [0, 0, 0] = (None, s1)"
    using l1 unfolding dn v by (simp add: numeral_3_eq_3)
  have s1: "s1 = batch_layer\<lparr>lora_block_mapping := [1, 1, 1], VecDB :=
        \<lparr>config_init_radius = 1,
         table =
           [\<lparr>cluster_center = [0], radius = 1, key_label = [5],
             points = [\<lparr>get_key = [0], get_value = 0\<rparr>]\<rparr>,
            \<lparr>cluster_center = [10], radius = 1, key_label = [5],
             points = [\<lparr>get_key = [10], get_value = 1\<rparr>]\<rparr>],
         forget_num = 0, conflict_num = 0, forget_keys = []\<rparr>\<rparr>"
    using l1' by (simp add: batch_first)
  have row: "length (table (VecDB s1)) = 2" "radius (table (VecDB s1) ! 0) = 1"
    "key_label (table (VecDB s1) ! 0) = [5]"
    "points (table (VecDB s1) ! 0) = [\<lparr>get_key = [0], get_value = 0\<rparr>]"
    by (simp_all add: s1)
  have l2': "update_step s1 1 [1 / 4] (1 / 4) 0 = (None, s2)"
    using l2 unfolding dn by simp
  have re: "update_cluster (VecDB s1) 0 [1 / 4] 1 = (None, VecDB s2)
      \<and> length (table (VecDB s2)) = 2
      \<and> points (table (VecDB s2) ! 0) =
          [\<lparr>get_key = [0], get_value = 0\<rparr>, \<lparr>get_key = [1 / 4], get_value = 1\<rparr>]"
    using three unfolding dn l v by (simp add: Let_def row label_match_same)
  have ex: "\<exists>s1 s2.
        update_loop (batch_layer\<lparr>lora_block_mapping := [1, 1, 1]\<rparr>) 0 [[10]]
          [10, 1 / 4, 1 / 2] [0, 0, 0] = (None, s1)
      \<and> length (table (VecDB s1)) = 2
      \<and> points (table (VecDB s1) ! 0) = [\<lparr>get_key = [0], get_value = 0\<rparr>]
      \<and> update_step s1 1 [1 / 4] (1 / 4) 0 = (None, s2)
      \<and> update_cluster (VecDB s1) 0 [1 / 4] 1 = (None, VecDB s2)
      \<and> length (table (VecDB s2)) = 2
      \<and> points (table (VecDB s2) ! 0) =
          [\<lparr>get_key = [0], get_value = 0\<rparr>, \<lparr>get_key = [1 / 4], get_value = 1\<rparr>]"
    using l1' row(1,4) l2' re by blast
  show ?thesis
    using f ok j batch_search ex fin by blast
qed

text \<open>
  The nearest cluster of an example is not looked for when its turn comes. In the batch
  \<open>[[10], [21 / 2]]\<close> with equal labels, on a store with one cluster at \<open>[0]\<close>, the
  first example gets a cluster of its own at \<open>[10]\<close>. In the store as it is then, the
  nearest cluster of the second example is that new cluster, at distance \<open>1 / 2\<close>, which
  does not exceed its radius plus \<^verbatim>\<open>init_radius\<close>, and the labels match: yet the
  second example is not appended to it. The pass ends with three clusters, the cluster at
  \<open>[10]\<close> still holding one point.
\<close>

lemma drift_search:
  "search_database (VecDB drift_layer) [[10], [21 / 2]] = Inr ([10, 21 / 2], [0, 0])"
  by (simp add: drift_layer_def batch_layer_def add_cluster_def VecDB_init_def
      search_database_def cdist_def euclid_single minimum_def argmin_def upt_rec Let_def)

lemma drift_after_first_eq:
  "update_step (drift_layer\<lparr>lora_block_mapping := [1, 1]\<rparr>) 0 [10] 10 0 =
     (None, drift_layer\<lparr>lora_block_mapping := [1, 1], VecDB :=
        \<lparr>config_init_radius = 1,
         table =
           [\<lparr>cluster_center = [0], radius = 1, key_label = [5],
             points = [\<lparr>get_key = [0], get_value = 0\<rparr>]\<rparr>,
            \<lparr>cluster_center = [10], radius = 1, key_label = [5],
             points = [\<lparr>get_key = [10], get_value = 1\<rparr>]\<rparr>],
         forget_num = 0, conflict_num = 0, forget_keys = []\<rparr>\<rparr>)"
  by (simp add: drift_layer_def batch_layer_def update_step_def GraceLayer_add_cluster_def
      read_edit_label_def add_cluster_def VecDB_init_def Let_def)

lemma drift_second:
  "update_step (drift_layer\<lparr>lora_block_mapping := [1, 1], VecDB :=
        \<lparr>config_init_radius = 1,
         table =
           [\<lparr>cluster_center = [0], radius = 1, key_label = [5],
             points = [\<lparr>get_key = [0], get_value = 0\<rparr>]\<rparr>,
            \<lparr>cluster_center = [10], radius = 1, key_label = [5],
             points = [\<lparr>get_key = [10], get_value = 1\<rparr>]\<rparr>],
         forget_num = 0, conflict_num = 0, forget_keys = []\<rparr>\<rparr>) 1 [21 / 2] (21 / 2) 0 =
     (None, drift_layer\<lparr>lora_block_mapping := [1, 1], VecDB :=
        \<lparr>config_init_radius = 1,
         table =
           [\<lparr>cluster_center = [0], radius = 1, key_label = [5],
             points = [\<lparr>get_key = [0], get_value = 0\<rparr>]\<rparr>,
            \<lparr>cluster_center = [10], radius = 1, key_label = [5],
             points = [\<lparr>get_key = [10], get_value = 1\<rparr>]\<rparr>,
            \<lparr>cluster_center = [21 / 2], radius = 1, key_label = [5],
             points = [\<lparr>get_key = [21 / 2], get_value = 1\<rparr>]\<rparr>],
         forget_num = 0, conflict_num = 0, forget_keys = []\<rparr>\<rparr>)"
  by (simp add: drift_layer_def batch_layer_def update_step_def GraceLayer_add_cluster_def
      read_edit_label_def add_cluster_def Let_def)

lemma drift_forward:
  "GraceLinear_forward drift_layer [[10], [21 / 2]] =
     (None, drift_layer\<lparr>lora_block_mapping := [1, 1], block_id := 2,
        LORA_BLOCK_MAPPING := [1, 1], VecDB :=
        \<lparr>config_init_radius = 1,
         table =
           [\<lparr>cluster_center = [0], radius = 1, key_label = [5],
             points = [\<lparr>get_key = [0], get_value = 0\<rparr>]\<rparr>,
            \<lparr>cluster_center = [10], radius = 1, key_label = [5],
             points = [\<lparr>get_key = [10], get_value = 1\<rparr>]\<rparr>,
            \<lparr>cluster_center = [21 / 2], radius = 1, key_label = [5],
             points = [\<lparr>get_key = [21 / 2], get_value = 1\<rparr>]\<rparr>],
         forget_num = 0, conflict_num = 0, forget_keys = []\<rparr>\<rparr>)"
proof -
  have m: "search_cluster (VecDB drift_layer) [[10], [21 / 2]] [10, 21 / 2] [0, 0]
      = Inr [NO_LORA, NO_LORA]"
    by (simp add: drift_layer_def batch_layer_def add_cluster_def VecDB_init_def
        search_cluster_def search_one_def Let_def)
  have s: "search drift_layer [[10], [21 / 2]] = Inr ([10, 21 / 2], [0, 0], [NO_LORA, NO_LORA])"
    by (simp add: search_def drift_search m)
  have f: "\<not> disable_grace drift_layer" "table (VecDB drift_layer) \<noteq> []" "training drift_layer"
    "batch_iter drift_layer = Some 0" "block_id drift_layer = 1"
    by (simp_all add: drift_layer_def batch_layer_def add_cluster_def)
  have l: "update_loop (drift_layer\<lparr>lora_block_mapping := [1, 1]\<rparr>) 0 [[10], [21 / 2]]
      [10, 21 / 2] [0, 0] =
     (None, drift_layer\<lparr>lora_block_mapping := [1, 1], VecDB :=
        \<lparr>config_init_radius = 1,
         table =
           [\<lparr>cluster_center = [0], radius = 1, key_label = [5],
             points = [\<lparr>get_key = [0], get_value = 0\<rparr>]\<rparr>,
            \<lparr>cluster_center = [10], radius = 1, key_label = [5],
             points = [\<lparr>get_key = [10], get_value = 1\<rparr>]\<rparr>,
            \<lparr>cluster_center = [21 / 2], radius = 1, key_label = [5],
             points = [\<lparr>get_key = [21 / 2], get_value = 1\<rparr>]\<rparr>],
         forget_num = 0, conflict_num = 0, forget_keys = []\<rparr>\<rparr>)"
    by (simp add: drift_after_first_eq drift_second[unfolded One_nat_def])
  show ?thesis
    using f s l by (simp add: GraceLinear_forward_def drift_layer_def batch_layer_def)
qed

theorem nearest_cluster_not_searched_again:
  "fst (GraceLinear_forward drift_layer [[10], [21 / 2]]) = None
   \<and> update_loop (drift_layer\<lparr>lora_block_mapping := replicate 2 (block_id drift_layer)\<rparr>) 0
       (take 1 [[10], [21 / 2]]) [10, 21 / 2] [0, 0] = (None, drift_after_first)
   \<and> length (table (VecDB drift_after_first)) = 2
   \<and> search_database (VecDB drift_after_first) [[21 / 2]] = Inr ([1 / 2], [1])
   \<and> \<not> 1 / 2 > radius (table (VecDB drift_after_first) ! 1) + init_radius drift_after_first
   \<and> read_edit_label drift_after_first 1 = Inr [5]
   \<and> label_match [5] (key_label (table (VecDB drift_after_first) ! 1))
   \<and> points (table (VecDB drift_after_first) ! 1) = [\<lparr>get_key = [10], get_value = 1\<rparr>]
   \<and> length (table (VecDB (snd (GraceLinear_forward drift_layer [[10], [21 / 2]])))) = 3
   \<and> points (table (VecDB (snd (GraceLinear_forward drift_layer [[10], [21 / 2]]))) ! 1) =
       [\<lparr>get_key = [10], get_value = 1\<rparr>]"
proof -
  have b: "block_id drift_layer = 1"
    by (simp add: drift_layer_def batch_layer_def)
  have a: "drift_after_first = drift_layer\<lparr>lora_block_mapping := [1, 1], VecDB :=
        \<lparr>config_init_radius = 1,
         table =
           [\<lparr>cluster_center = [0], radius = 1, key_label = [5],
             points = [\<lparr>get_key = [0], get_value = 0\<rparr>]\<rparr>,
            \<lparr>cluster_center = [10], radius = 1, key_label = [5],
             points = [\<lparr>get_key = [10], get_value = 1\<rparr>]\<rparr>],
         forget_num = 0, conflict_num = 0, forget_keys = []\<rparr>\<rparr>"
    by (simp add: drift_after_first_def b numeral_2_eq_2 drift_after_first_eq)
  have l: "update_loop (drift_layer\<lparr>lora_block_mapping := replicate 2 (block_id drift_layer)\<rparr>) 0
       (take 1 [[10], [21 / 2]]) [10, 21 / 2] [0, 0] = (None, drift_after_first)"
    unfolding a by (simp add: b numeral_2_eq_2 drift_after_first_eq)
  have s: "search_database (VecDB drift_after_first) [[21 / 2]] = Inr ([1 / 2], [1])"
    unfolding a
    by (simp add: search_database_def cdist_def euclid_single minimum_def argmin_def Let_def)
  have r: "\<not> 1 / 2 > radius (table (VecDB drift_after_first) ! 1) + init_radius drift_after_first"
    "read_edit_label drift_after_first 1 = Inr [5]"
    "key_label (table (VecDB drift_after_first) ! 1) = [5]"
    "length (table (VecDB drift_after_first)) = 2"
    "points (table (VecDB drift_after_first) ! 1) = [\<lparr>get_key = [10], get_value = 1\<rparr>]"
    unfolding a by (simp_all add: drift_layer_def batch_layer_def read_edit_label_def)
  have m: "label_match [5] (key_label (table (VecDB drift_after_first) ! 1))"
    unfolding r(3) by (rule label_match_same)
  have f: "fst (GraceLinear_forward drift_layer [[10], [21 / 2]]) = None"
    "length (table (VecDB (snd (GraceLinear_forward drift_layer [[10], [21 / 2]])))) = 3"
    "points (table (VecDB (snd (GraceLinear_forward drift_layer [[10], [21 / 2]]))) ! 1) =
       [\<lparr>get_key = [10], get_value = 1\<rparr>]"
    unfolding drift_forward by simp_all
  show ?thesis
    using f l s r(1,2,4,5) m by blast
qed

subsection \<open>The length of the published assignment list\<close>

lemma degenerate_store_eq:
  "update_cluster (add_cluster (VecDB_init 1) [0] 0 [5]) 0 [1, 2] 0 =
     (Some RuntimeError,
      \<lparr>config_init_radius = 1,
       table = [\<lparr>cluster_center = [1 / 2, 1], radius = 1, key_label = [5],
                 points = [\<lparr>get_key = [0], get_value = 0\<rparr>, \<lparr>get_key = [1, 2], get_value = 0\<rparr>]\<rparr>],
       forget_num = 0, conflict_num = 0, forget_keys = []\<rparr>)"
  by (simp add: update_cluster_def add_cluster_def VecDB_init_def py_sum_def tensor_add_def
      euc_def stack_def Let_def)

lemma degenerate_search:
  "search_database degenerate_store [[1 / 2, 1]] = Inr ([0], [0])"
  unfolding degenerate_store_def degenerate_store_eq
  by (simp add: search_database_def cdist_def euclid_def minimum_def argmin_def)

lemma degenerate_cluster:
  "search_cluster degenerate_store [[1 / 2, 1]] [0] [0] = Inr []"
  unfolding degenerate_store_def degenerate_store_eq
  by (simp add: search_cluster_def search_one_def euc_def stack_def)

text \<open>
  Claim C7, at an input where the code departs from it. A cluster whose points have
  keys of two sizes makes \<^verbatim>\<open>torch.stack\<close> raise inside the \<^verbatim>\<open>try\<close> block of
  \<^verbatim>\<open>search_cluster\<close>; the handler prints and goes on to the next query, and nothing
  is appended for the query. The inference pass over a batch of one example then
  publishes the empty list.
\<close>

theorem degenerate_cluster_shortens_mapping:
  "fst (update_cluster (add_cluster (VecDB_init 1) [0] 0 [5]) 0 [1, 2] 0) = Some RuntimeError
   \<and> search_cluster degenerate_store [[1 / 2, 1]] [0] [0] = Inr []
   \<and> GraceLinear_forward inference_layer [[1 / 2, 1]] =
        (None, inference_layer\<lparr>lora_block_mapping := [], LORA_BLOCK_MAPPING := []\<rparr>)
   \<and> length (LORA_BLOCK_MAPPING (snd (GraceLinear_forward inference_layer [[1 / 2, 1]]))) = 0
   \<and> length [[1 / 2, 1 :: real]] = 1"
proof -
  have t: "length (table degenerate_store) \<noteq> 0"
    unfolding degenerate_store_def degenerate_store_eq by simp
  have s: "search inference_layer [[1 / 2, 1]] = Inr ([0], [0], [])"
    by (simp add: search_def inference_layer_def degenerate_search degenerate_cluster)
  have f: "GraceLinear_forward inference_layer [[1 / 2, 1]] =
        (None, inference_layer\<lparr>lora_block_mapping := [], LORA_BLOCK_MAPPING := []\<rparr>)"
    unfolding GraceLinear_forward_def s
    using t by (simp add: inference_layer_def GraceLayer_init_def)
  show ?thesis
    unfolding f using degenerate_cluster by (simp add: degenerate_store_eq)
qed

text \<open>
  In the other modes the published list has one entry per example: an empty store at
  inference, an empty store in training, and the update of a store that is not empty.
\<close>

lemma forward_empty_store_inference_length:
  assumes "\<not> disable_grace st" "table (VecDB st) = []" "\<not> training st"
  shows "GraceLinear_forward st qs =
     (None, st\<lparr>lora_block_mapping := replicate (length qs) NO_LORA,
                LORA_BLOCK_MAPPING := replicate (length qs) NO_LORA\<rparr>)"
  using assms by (simp add: GraceLinear_forward_def)

lemma init_loop_length:
  "init_loop st i qs m = (None, st', m') \<Longrightarrow> length m' = length m + length qs"
proof (induction qs arbitrary: st i m)
  case Nil
  then show ?case by simp
next
  case (Cons q qs)
  show ?case
  proof (cases "read_edit_label st i")
    case (Inl e)
    then show ?thesis using Cons.prems by simp
  next
    case (Inr l)
    then show ?thesis using Cons.prems Cons.IH by (auto simp: Let_def)
  qed
qed

lemma forward_empty_store_training_length:
  assumes "\<not> disable_grace st" "table (VecDB st) = []" "training st"
    and "GraceLinear_forward st qs = (None, st')"
  shows "length (LORA_BLOCK_MAPPING st') = length qs"
proof -
  obtain e s1 m where il: "init_loop st 0 qs [] = (e, s1, m)"
    by (cases "init_loop st 0 qs []") auto
  have e: "e = None"
    using assms il by (cases e) (auto simp: GraceLinear_forward_def init_key_value_def)
  have "length m = length qs" using init_loop_length[of st 0 qs "[]" s1 m] il e by simp
  moreover have "LORA_BLOCK_MAPPING st' = m"
    using assms il e by (auto simp: GraceLinear_forward_def init_key_value_def)
  ultimately show ?thesis by simp
qed

lemma forward_training_update_length:
  assumes "\<not> disable_grace st" "table (VecDB st) \<noteq> []" "training st" "batch_iter st = Some 0"
    and "GraceLinear_forward st qs = (None, st')"
  shows "LORA_BLOCK_MAPPING st' = replicate (length qs) (block_id st)"
proof -
  obtain ds ns m where s: "search st qs = Inr (ds, ns, m)"
    using assms by (cases "search st qs") (auto simp: GraceLinear_forward_def)
  define st0 where "st0 = st\<lparr>lora_block_mapping := replicate (length qs) (block_id st)\<rparr>"
  obtain e s1 where l: "update_loop st0 0 qs ds ns = (e, s1)"
    by (cases "update_loop st0 0 qs ds ns") auto
  have e: "e = None"
    using assms s l by (cases e) (auto simp: GraceLinear_forward_def st0_def)
  have "lora_block_mapping s1 = lora_block_mapping st0"
    using update_loop_frame[of st0 0 qs ds ns] l by simp
  moreover have "LORA_BLOCK_MAPPING st' = lora_block_mapping s1"
    using assms s l e by (auto simp: GraceLinear_forward_def st0_def)
  ultimately show ?thesis by (simp add: st0_def)
qed

subsection \<open>The router\<close>

text \<open>
  The selection of \<^verbatim>\<open>topk\<close>: the descending selection is one the library may
  give, so every result of \<open>topk\<close> is, and every selection the library may give is
  the result of \<open>topk\<close> for some \<open>pick\<close>.
\<close>

lemma descending_is_topk:
  assumes k: "k \<le> length row"
  shows "is_topk k row (descending k row)"
proof -
  define n where "n = length row"
  define zs where "zs = sort_key (\<lambda>(v, i). - v) (zip row [0 ..< n])"
  have set_zs: "set zs = set (zip row [0 ..< n])"
    by (simp add: zs_def)
  have len_zs: "length zs = n"
    by (simp add: zs_def n_def)
  have mem: "i < n \<and> v = row ! i" if "(v, i) \<in> set zs" for v i
    using that unfolding set_zs by (auto simp: in_set_zip n_def)
  have dz: "distinct zs"
    unfolding zs_def by (simp add: distinct_zipI2)
  have inj: "inj_on snd (set zs)"
    by (rule inj_onI) (metis mem prod.collapse)
  have dsnd: "distinct (map snd zs)"
    using dz inj by (simp add: distinct_map)
  have srt: "sorted (map (\<lambda>(v, i). - v) zs)"
    by (simp add: zs_def)
  have idx: "descending k row = map snd (take k zs)"
    by (simp add: descending_def zs_def n_def)
  have l: "length (descending k row) = k"
    using k by (simp add: idx len_zs n_def)
  have d: "distinct (descending k row)"
    unfolding idx using dsnd by (simp add: take_map[symmetric])
  have r: "list_all (\<lambda>i. i < length row) (descending k row)"
    unfolding idx list_all_iff
  proof
    fix i assume "i \<in> set (map snd (take k zs))"
    then obtain v where "(v, i) \<in> set (take k zs)" by auto
    then have "(v, i) \<in> set zs" by (meson in_set_takeD)
    then show "i < length row" using mem by (simp add: n_def)
  qed
  have big: "row ! j \<le> row ! i"
    if j: "j < n" and nj: "j \<notin> set (descending k row)" and i: "i \<in> set (descending k row)" for i j
  proof -
    have "(row ! j, j) \<in> set zs"
      unfolding set_zs using j by (auto simp: in_set_conv_nth n_def intro!: exI[of _ j])
    then obtain p where p: "p < n" "zs ! p = (row ! j, j)"
      by (auto simp: in_set_conv_nth len_zs)
    have pk: "\<not> p < k"
    proof
      assume "p < k"
      then have "take k zs ! p = (row ! j, j)" using p by simp
      moreover have "p < length (take k zs)" using \<open>p < k\<close> p len_zs by simp
      ultimately have "(row ! j, j) \<in> set (take k zs)" by (metis nth_mem)
      then have "j \<in> set (descending k row)" unfolding idx by force
      then show False using nj by simp
    qed
    obtain q where q: "q < k" "q < n" "snd (zs ! q) = i"
      using i k unfolding idx by (auto simp: in_set_conv_nth len_zs n_def)
    obtain v where v: "zs ! q = (v, i)" using q(3) by (cases "zs ! q") auto
    have "(v, i) \<in> set zs" using q(2) v len_zs by (metis nth_mem)
    then have vi: "v = row ! i" using mem by blast
    have "q \<le> p" using q(1) pk by simp
    then have "map (\<lambda>(v, i). - v) zs ! q \<le> map (\<lambda>(v, i). - v) zs ! p"
      using srt p(1) len_zs by (simp add: sorted_iff_nth_mono)
    then show ?thesis using p q(2) v vi len_zs by simp
  qed
  have c: "list_all (\<lambda>j. j \<in> set (descending k row) \<or> list_all (\<lambda>i. row ! j \<le> row ! i) (descending k row))
      [0 ..< length row]"
    unfolding list_all_iff using big by (auto simp: n_def)
  show ?thesis
    unfolding is_topk_def using l d r c by simp
qed

lemma topk_is_topk:
  "topk pick k row = Inr (vals, idx) \<Longrightarrow> is_topk k row idx \<and> vals = map (\<lambda>i. row ! i) idx"
  using descending_is_topk[of k row]
  by (auto simp: topk_def Let_def split: if_splits)

lemma topk_any_selection:
  "k \<le> length row \<Longrightarrow> is_topk k row idx \<Longrightarrow>
     topk (\<lambda>k row. idx) k row = Inr (map (\<lambda>i. row ! i) idx, idx)"
  by (simp add: topk_def)





lemma zero_scores:
  "linear [[0], [0]] None [[0]] = Inr [[0, 0]]"
  by (simp add: linear_def dot_def)




text \<open>
  Claim C10. Whatever selection \<^verbatim>\<open>torch.topk\<close> makes, with the editing flag set
  \<^verbatim>\<open>Gate.forward\<close> returns a result only if
  a preset target was installed with mode \<^verbatim>\<open>'soft'\<close>: in mode \<^verbatim>\<open>'hard'\<close>, in any
  other mode or with no preset target the call never returns a result, and whenever the
  selection of the experts before the loss goes through, the exception is the unbound
  local variable.
\<close>

theorem editing_needs_soft_target:
  assumes "editing g"
    and "\<not> (preset_target g \<and> target_set_mode g = Some ''soft'')"
  shows "(\<exists>e. Gate_forward pick g inp return_all_scores = Inl e)
    \<and> (\<forall>sel. select_experts pick g inp = Inr sel \<longrightarrow>
          Gate_forward pick g inp return_all_scores = Inl UnboundLocalError)"
proof -
  have b: "Gate_forward pick g inp return_all_scores = Inl UnboundLocalError"
    if "select_experts pick g inp = Inr sel" for sel
    using assms that by (cases sel) (auto simp: Gate_forward_def)
  have a: "\<exists>e. Gate_forward pick g inp return_all_scores = Inl e"
  proof (cases "select_experts pick g inp")
    case (Inl e)
    then show ?thesis by (simp add: Gate_forward_def)
  next
    case (Inr sel)
    then show ?thesis using b by blast
  qed
  show ?thesis using a b by blast
qed

lemma editing_gate_select:
  "select_experts descending editing_gate [[0]] = Inr ([[1 / 2, 1 / 2]], [[0]], [[1 / 2]])"
  by (simp add: editing_gate_def Gate_init_def select_experts_def zero_scores softmax_def
      topk_def is_topk_def descending_def upt_rec Let_def)

theorem editing_needs_soft_target_witness:
  "editing editing_gate
   \<and> \<not> (preset_target editing_gate \<and> target_set_mode editing_gate = Some ''soft'')
   \<and> select_experts descending editing_gate [[0]] = Inr ([[1 / 2, 1 / 2]], [[0]], [[1 / 2]])
   \<and> Gate_forward descending editing_gate [[0]] False = Inl UnboundLocalError"
proof -
  have e: "editing editing_gate" by (simp add: editing_gate_def)
  have n: "\<not> (preset_target editing_gate \<and> target_set_mode editing_gate = Some ''soft'')"
    by (simp add: editing_gate_def Gate_init_def)
  show ?thesis
    using editing_needs_soft_target[OF e n, where pick = descending and inp = "[[0]]" and return_all_scores = False] e n editing_gate_select by simp
qed

subsection \<open>Merging and unmerging the dense adapter layer\<close>

lemma nrows_build [simp]: "nrows (build n m f) = n"
  by (simp add: nrows_def build_def)

lemma ncols_build [simp]: "ncols (build n m f) = m"
  by (simp add: build_def)

lemma entry_build [simp]: "i < n \<Longrightarrow> j < m \<Longrightarrow> entry (build n m f) i j = f i j"
  by (simp add: entry_def build_def)

lemma wf_build [simp]: "wf_mat (build n m f)"
  by (simp add: wf_mat_def build_def list_all_iff)

lemma build_cong:
  "(\<And>i j. i < n \<Longrightarrow> j < m \<Longrightarrow> f i j = g i j) \<Longrightarrow> build n m f = build n m g"
  by (simp add: build_def)

lemma build_entry: "wf_mat W \<Longrightarrow> build (nrows W) (ncols W) (entry W) = W"
proof -
  assume wf: "wf_mat W"
  have "map (\<lambda>i. map (\<lambda>j. rows W ! i ! j) [0 ..< ncols W]) [0 ..< length (rows W)] = rows W"
  proof (rule nth_equalityI)
    show "length (map (\<lambda>i. map (\<lambda>j. rows W ! i ! j) [0 ..< ncols W]) [0 ..< length (rows W)]) = length (rows W)"
      by simp
  next
    fix i assume "i < length (map (\<lambda>i. map (\<lambda>j. rows W ! i ! j) [0 ..< ncols W]) [0 ..< length (rows W)])"
    then have i: "i < length (rows W)" by simp
    then have "length (rows W ! i) = ncols W" using wf by (simp add: wf_mat_def list_all_length)
    then have "map (\<lambda>j. rows W ! i ! j) [0 ..< ncols W] = rows W ! i"
      by (metis map_nth)
    then show "map (\<lambda>i. map (\<lambda>j. rows W ! i ! j) [0 ..< ncols W]) [0 ..< length (rows W)] ! i = rows W ! i"
      using i by simp
  qed
  then show ?thesis by (simp add: build_def entry_def nrows_def)
qed

lemma isub_iadd:
  assumes "wf_mat W" "iadd W D = Inr W1"
  shows "isub W1 D = Inr W"
proof -
  have b: "broadcasts_to D W" and w1: "W1 = build (nrows W) (ncols W) (\<lambda>i j. entry W i j + bentry D i j)"
    using assms(2) by (auto simp: iadd_def split: if_splits)
  have b1: "broadcasts_to D W1" using b by (simp add: broadcasts_to_def w1)
  have "build (nrows W) (ncols W) (\<lambda>i j. entry W1 i j - bentry D i j) = build (nrows W) (ncols W) (entry W)"
    by (rule build_cong) (simp add: w1)
  then show ?thesis using b1 build_entry[OF assms(1)] by (simp add: isub_def w1)
qed

lemma merge_of_parameters_raises:
  assumes "lora_A L = Some (Parameter A)" "lora_B L = Some (Parameter B)" "\<not> merged L" "lora_r L > 0"
  shows "merge L = (Some AttributeError, L)"
  using assms by (simp add: merge_def merge_delta_def attr_weight_def)

lemma Linear_init_parameters:
  assumes "Linear_init W b fifo r alpha nrpb A B = Inr L" "r > 0"
  shows "lora_A L = Some (Parameter A) \<and> lora_B L = Some (Parameter B) \<and> \<not> merged L
    \<and> lora_r L = r \<and> weight L = W"
  using assms by (auto simp: Linear_init_def Let_def split: if_splits)

lemma merge_after_init_raises:
  assumes "Linear_init W b fifo r alpha nrpb A B = Inr L" "r > 0"
  shows "merge L = (Some AttributeError, L)"
  using Linear_init_parameters[OF assms] merge_of_parameters_raises[of L A B] assms(2) by simp

lemma merge_when_merged:
  "lora_A L \<noteq> None \<Longrightarrow> merged L \<Longrightarrow>
   merge L = (None, L\<lparr>warnings := warnings L @ [''Already merged. Nothing to do.'']\<rparr>)"
  by (auto simp: merge_def)

lemma unmerge_when_unmerged:
  "lora_A L \<noteq> None \<Longrightarrow> \<not> merged L \<Longrightarrow>
   unmerge L = (None, L\<lparr>warnings := warnings L @ [''Already unmerged. Nothing to do.'']\<rparr>)"
  by (auto simp: unmerge_def)

lemma no_mutation_without_rank:
  "lora_r L \<le> 0 \<Longrightarrow>
   weight (snd (merge L)) = weight L \<and> merged (snd (merge L)) = merged L
   \<and> weight (snd (unmerge L)) = weight L \<and> merged (snd (unmerge L)) = merged L"
  by (simp add: merge_def unmerge_def)

lemma unmerge_merge_modules:
  assumes wf: "wf_mat (weight L)" and m: "merge L = (None, L1)" and un: "\<not> merged L"
    and r: "lora_r L > 0" and a: "lora_A L \<noteq> None"
  shows "unmerge L1 = (None, L1\<lparr>weight := weight L, merged := False\<rparr>)"
proof -
  obtain D where d: "merge_delta L = Inr D"
    using m un r a by (cases "merge_delta L") (auto simp: merge_def)
  obtain W1 where w1: "iadd (weight L) D = Inr W1"
    using m un r a d by (cases "iadd (weight L) D") (auto simp: merge_def)
  have l1: "L1 = L\<lparr>weight := W1, merged := True\<rparr>"
    using m un r a d w1 by (simp add: merge_def)
  have "merge_delta L1 = merge_delta L"
    by (simp add: l1 merge_delta_def split: option.splits sum.splits)
  then have d1: "merge_delta L1 = Inr D"
    using d by simp
  have "isub W1 D = Inr (weight L)" using isub_iadd[OF wf w1] .
  then show ?thesis
    using a r d1 by (auto simp: unmerge_def l1)
qed

text \<open>
  Claim C6, at an input where the code departs from it. \<^verbatim>\<open>update_layer\<close> stores
  the factors of a \<^verbatim>\<open>Linear\<close> layer as parameters, and \<^verbatim>\<open>merge\<close> reads
  \<^verbatim>\<open>.weight\<close> of them: on the layer as created with \<open>r > 0\<close>, not merged,
  \<^verbatim>\<open>merge()\<close> raises \<^verbatim>\<open>AttributeError\<close> and leaves the weight and the flag as
  they were, so nothing is added that \<^verbatim>\<open>unmerge()\<close> could subtract. The guards and
  the case \<open>r = 0\<close> are as the claim says (\<open>merge_when_merged\<close>,
  \<open>unmerge_when_unmerged\<close>, \<open>no_mutation_without_rank\<close>), and with factors that do
  hold a \<^verbatim>\<open>.weight\<close> the two calls are inverse (\<open>unmerge_merge_modules\<close>).
\<close>

theorem merge_raises_on_created_layer:
  "Linear_init unit_mat None False 1 1 1 unit_mat unit_mat = Inr small_linear
   \<and> merge small_linear = (Some AttributeError, small_linear)
   \<and> weight (snd (merge small_linear)) = weight small_linear
   \<and> merged (snd (merge small_linear)) = False"
proof -
  have i: "Linear_init unit_mat None False 1 1 1 unit_mat unit_mat = Inr small_linear"
    by (simp add: Linear_init_def small_linear_def Let_def)
  have "merge small_linear = (Some AttributeError, small_linear)"
    using merge_after_init_raises[OF i] by simp
  then show ?thesis using i by (simp add: small_linear_def)
qed

subsection \<open>The block gather and the low-rank term\<close>

lemma sequence_Inr:
  "sequence xs = Inr ys \<Longrightarrow> length ys = length xs \<and> (\<forall>i < length xs. xs ! i = Inr (ys ! i))"
proof (induction xs arbitrary: ys)
  case Nil
  then show ?case by simp
next
  case (Cons x xs)
  obtain a where a: "x = Inr a" using Cons.prems by (cases x) auto
  obtain as where as: "sequence xs = Inr as" using Cons.prems a by (cases "sequence xs") auto
  have ys: "ys = a # as" using Cons.prems a as by simp
  have ih: "length as = length xs \<and> (\<forall>i < length xs. xs ! i = Inr (as ! i))"
    using Cons.IH[OF as] .
  show ?case
  proof (intro conjI allI impI)
    show "length ys = length (x # xs)" using ih ys by simp
  next
    fix i assume "i < length (x # xs)"
    then show "(x # xs) ! i = Inr (ys ! i)" using ih ys a by (cases i) auto
  qed
qed

lemma nrows_zeros [simp]: "nrows (zeros n m) = n"
  by (simp add: zeros_def)

lemma ncols_zeros [simp]: "ncols (zeros n m) = m"
  by (simp add: zeros_def)

lemma entry_zeros [simp]: "i < n \<Longrightarrow> j < m \<Longrightarrow> entry (zeros n m) i j = 0"
  by (simp add: zeros_def)

lemma scale_zeros: "scale c (zeros n m) = zeros n m"
proof -
  have "scale c (zeros n m) = build n m (\<lambda>i j. entry (zeros n m) i j * c)"
    by (simp add: scale_def)
  also have "\<dots> = build n m (\<lambda>i j. 0)"
    by (rule build_cong) simp
  finally show ?thesis by (simp add: zeros_def)
qed

lemma mT_zeros: "mT (zeros n m) = zeros m n"
proof -
  have "mT (zeros n m) = build m n (\<lambda>i j. entry (zeros n m) j i)"
    by (simp add: mT_def)
  also have "\<dots> = build m n (\<lambda>i j. 0)"
    by (rule build_cong) simp
  finally show ?thesis by (simp add: zeros_def)
qed

lemma sum_list_zero: "(\<Sum>k \<leftarrow> ks. f k * (0::real)) = 0"
  by (induction ks) auto

lemma matmul_zeros_right:
  "matmul X (zeros n m) = Inr Z \<Longrightarrow> Z = zeros (nrows X) m"
proof -
  assume a: "matmul X (zeros n m) = Inr Z"
  then have c: "ncols X = n" by (auto simp: matmul_def split: if_splits)
  have "Z = build (nrows X) m (\<lambda>i j. \<Sum>k \<leftarrow> [0 ..< ncols X]. entry X i k * entry (zeros n m) k j)"
    using a by (auto simp: matmul_def split: if_splits)
  also have "\<dots> = build (nrows X) m (\<lambda>i j. 0)"
  proof (rule build_cong)
    fix i j assume "i < nrows X" "j < m"
    have "(\<Sum>k \<leftarrow> [0 ..< ncols X]. entry X i k * entry (zeros n m) k j)
        = (\<Sum>k \<leftarrow> [0 ..< ncols X]. entry X i k * 0)"
      using c \<open>j < m\<close> by (intro arg_cong[where f=sum_list] map_cong) auto
    then show "(\<Sum>k \<leftarrow> [0 ..< ncols X]. entry X i k * entry (zeros n m) k j) = 0"
      by (simp add: sum_list_zero)
  qed
  finally show ?thesis by (simp add: zeros_def)
qed

lemma matmul_zeros_left:
  "matmul (zeros n m) B = Inr Z \<Longrightarrow> Z = zeros n (ncols B)"
proof -
  assume a: "matmul (zeros n m) B = Inr Z"
  have "Z = build n (ncols B) (\<lambda>i j. \<Sum>k \<leftarrow> [0 ..< m]. entry (zeros n m) i k * entry B k j)"
    using a by (auto simp: matmul_def split: if_splits)
  also have "\<dots> = build n (ncols B) (\<lambda>i j. 0)"
  proof (rule build_cong)
    fix i j assume "i < n" "j < ncols B"
    have "(\<Sum>k \<leftarrow> [0 ..< m]. entry (zeros n m) i k * entry B k j)
        = (\<Sum>k \<leftarrow> [0 ..< m]. 0 * entry B k j)"
      using \<open>i < n\<close> by (intro arg_cong[where f=sum_list] map_cong) auto
    then show "(\<Sum>k \<leftarrow> [0 ..< m]. entry (zeros n m) i k * entry B k j) = 0"
      by simp
  qed
  finally show ?thesis by (simp add: zeros_def)
qed

lemma iadd_zeros:
  assumes "wf_mat W" "iadd W (zeros n m) = Inr W'"
  shows "W' = W"
proof -
  have b: "broadcasts_to (zeros n m) W"
    and w: "W' = build (nrows W) (ncols W) (\<lambda>i j. entry W i j + bentry (zeros n m) i j)"
    using assms(2) by (auto simp: iadd_def split: if_splits)
  have "build (nrows W) (ncols W) (\<lambda>i j. entry W i j + bentry (zeros n m) i j)
      = build (nrows W) (ncols W) (entry W)"
  proof (rule build_cong)
    fix i j assume i: "i < nrows W" and j: "j < ncols W"
    have "(if nrows (zeros n m) = 1 then 0 else i) < n" "(if ncols (zeros n m) = 1 then 0 else j) < m"
      using b i j by (auto simp: broadcasts_to_def)
    then have "bentry (zeros n m) i j = 0"
      unfolding bentry_def by (rule entry_zeros)
    then show "entry W i j + bentry (zeros n m) i j = entry W i j" by simp
  qed
  then show ?thesis using w build_entry[OF assms(1)] by simp
qed

lemma gather_block_NO_LORA:
  "gather_block nrpb inputs NO_LORA = zeros nrpb (ncols inputs)"
  by (simp add: gather_block_def)

lemma dynamic_forward_NO_LORA:
  assumes "dynamic_forward mr nrpb mapping inputs = Inr blocks"
  shows "length blocks = length mapping"
    and "i < length mapping \<Longrightarrow> mapping ! i = NO_LORA \<Longrightarrow> blocks ! i = zeros nrpb (ncols inputs)"
proof -
  have b: "blocks = map (scale (sqrt (real mr / real nrpb))) (map (gather_block nrpb inputs) mapping)"
    using assms by (auto simp: dynamic_forward_def stack_mats_def split: if_splits)
  show "length blocks = length mapping" by (simp add: b)
  show "blocks ! i = zeros nrpb (ncols inputs)" if "i < length mapping" "mapping ! i = NO_LORA"
    using that by (simp add: b gather_block_NO_LORA scale_zeros)
qed

lemma bmm_nth:
  assumes "bmm X Y = Inr Z" "length X = length Y" "i < length Y"
  shows "matmul (X ! i) (Y ! i) = Inr (Z ! i)" and "length Z = length Y"
proof -
  have s: "sequence (map2 matmul X Y) = Inr Z" using assms by (simp add: bmm_def)
  from sequence_Inr[OF s] show "length Z = length Y" using assms(2) by simp
  from sequence_Inr[OF s] have "map2 matmul X Y ! i = Inr (Z ! i)" using assms by simp
  then show "matmul (X ! i) (Y ! i) = Inr (Z ! i)" using assms by simp
qed

lemma matmul_wf: "matmul A B = Inr Z \<Longrightarrow> wf_mat Z"
  by (auto simp: matmul_def split: if_splits)

lemma add_bias_wf: "add_bias b M = Inr Z \<Longrightarrow> wf_mat M \<Longrightarrow> wf_mat Z"
  by (auto simp: add_bias_def split: option.splits if_splits)

lemma F_linear_wf:
  assumes "F_linear x W b = Inr result" "i < length x"
  shows "wf_mat (result ! i)" and "length result = length x"
proof -
  note s = sequence_Inr[OF assms(1)[unfolded F_linear_def]]
  show "length result = length x" using s by simp
  have "(case matmul (x ! i) (mT W) of Inl e \<Rightarrow> Inl e | Inr y \<Rightarrow> add_bias b y) = Inr (result ! i)"
    using s assms(2) by simp
  then show "wf_mat (result ! i)"
    using matmul_wf add_bias_wf by (cases "matmul (x ! i) (mT W)") auto
qed

lemma lora_term_NO_LORA:
  assumes t: "lora_term dropout mapping L x = Inr D"
    and len: "length mapping = length x" "length (dropout x) = length x"
    and i: "i < length x" and no: "mapping ! i = NO_LORA"
  shows "length D = length x"
    and "\<exists>n m. D ! i = zeros n m"
proof -
  obtain a where a: "lora_A L = Some a" using t by (cases "lora_A L") (auto simp: lora_term_def)
  obtain A where A: "as_tensor a = Inr A" using t a by (cases "as_tensor a") (auto simp: lora_term_def)
  obtain bA where bA: "dynamic_forward (maximum_rank L) (num_rank_per_block L) mapping (mT A) = Inr bA"
    using t a A
    by (cases "dynamic_forward (maximum_rank L) (num_rank_per_block L) mapping (mT A)")
       (auto simp: lora_term_def)
  obtain b where b: "lora_B L = Some b" using t a A bA by (cases "lora_B L") (auto simp: lora_term_def)
  obtain B where B: "as_tensor b = Inr B" using t a A bA b by (cases "as_tensor b") (auto simp: lora_term_def)
  obtain bB where bB: "dynamic_forward (maximum_rank L) (num_rank_per_block L) mapping B = Inr bB"
    using t a A bA b B
    by (cases "dynamic_forward (maximum_rank L) (num_rank_per_block L) mapping B")
       (auto simp: lora_term_def)
  obtain xa where xa: "bmm (dropout x) (map mT bA) = Inr xa"
    using t a A bA b B bB by (cases "bmm (dropout x) (map mT bA)") (auto simp: lora_term_def)
  obtain xab where xab: "bmm xa bB = Inr xab"
    using t a A bA b B bB xa by (cases "bmm xa bB") (auto simp: lora_term_def)
  have D: "D = map (scale (scaling L)) xab"
    using t a A bA b B bB xa xab by (simp add: lora_term_def)
  have lA: "length bA = length x" and lB: "length bB = length x"
    using dynamic_forward_NO_LORA(1)[OF bA] dynamic_forward_NO_LORA(1)[OF bB] len by simp_all
  have zA: "bA ! i = zeros (num_rank_per_block L) (ncols (mT A))"
    using dynamic_forward_NO_LORA(2)[OF bA] i no len by simp
  have i1: "i < length (map mT bA)" using lA i by simp
  have l1: "length (dropout x) = length (map mT bA)" using lA len by simp
  have m1: "matmul (dropout x ! i) (map mT bA ! i) = Inr (xa ! i)" and lxa: "length xa = length x"
    using bmm_nth[OF xa l1 i1] lA by simp_all
  have "map mT bA ! i = zeros (ncols (mT A)) (num_rank_per_block L)"
    using i lA zA by (simp add: mT_zeros)
  then have z1: "xa ! i = zeros (nrows (dropout x ! i)) (num_rank_per_block L)"
    using m1 matmul_zeros_right by metis
  have i2: "i < length bB" using lB i by simp
  have l2: "length xa = length bB" using lxa lB by simp
  have m2: "matmul (xa ! i) (bB ! i) = Inr (xab ! i)" and lxab: "length xab = length x"
    using bmm_nth[OF xab l2 i2] lB by simp_all
  have z2: "xab ! i = zeros (nrows (dropout x ! i)) (ncols (bB ! i))"
    using m2 unfolding z1 by (rule matmul_zeros_left)
  show "length D = length x" by (simp add: D lxab)
  have "D ! i = scale (scaling L) (xab ! i)" using i lxab by (simp add: D)
  then show "\<exists>n m. D ! i = zeros n m" unfolding z2 by (auto simp: scale_zeros)
qed

lemma small_forward:
  "Linear_forward (\<lambda>x. x) [NO_LORA] small_linear [two_mat] = Inr (small_linear, [two_mat])"
  by (simp add: Linear_forward_def small_linear_def two_mat_def unit_mat_def F_linear_def
      peft_transpose_def matmul_def mT_def build_def nrows_def entry_def add_bias_def
      lora_term_def as_tensor_def dynamic_forward_def stack_mats_def gather_block_def zeros_def
      scale_def bmm_def iadd_batch_def iadd_def broadcasts_to_def bentry_def NO_LORA_def)

text \<open>
  Claim C5. For an example whose entry of the published list is \<^verbatim>\<open>NO_LORA\<close>, the
  block gather puts an all-zero block of shape \<open>(num_rank_per_block, width)\<close> in its
  place; in the branch of \<^verbatim>\<open>Linear.forward\<close> that applies the adapter the low-rank
  term of that example is a zero matrix, and in every branch the output for that example
  is the output of the base linear map. The published list and the output of the dropout
  have one entry per example of the batch.
\<close>

theorem NO_LORA_example_gets_base_output:
  assumes fwd: "Linear_forward dropout mapping L x = Inr (L', y)"
    and len: "length mapping = length x" "length (dropout x) = length x"
    and i: "i < length x" and no: "mapping ! i = NO_LORA"
  shows "gather_block (num_rank_per_block L) M NO_LORA = zeros (num_rank_per_block L) (ncols M)
    \<and> (\<exists>base. F_linear x (peft_transpose (weight L') (fan_in_fan_out L')) (bias L') = Inr base
          \<and> y ! i = base ! i)
    \<and> (lora_A L \<noteq> None \<and> \<not> disable_adapters L \<and> lora_r L > 0 \<and> \<not> merged L \<longrightarrow>
         (\<exists>D n m. lora_term dropout mapping L x = Inr D \<and> D ! i = zeros n m))"
proof -
  have adapter: "(\<exists>base. F_linear x (peft_transpose (weight L') (fan_in_fan_out L')) (bias L') = Inr base
          \<and> y ! i = base ! i)
      \<and> (\<exists>D n m. lora_term dropout mapping L x = Inr D \<and> D ! i = zeros n m)"
    if br: "lora_A L \<noteq> None" "\<not> disable_adapters L" "lora_r L > 0" "\<not> merged L"
  proof -
    obtain result where res: "F_linear x (peft_transpose (weight L) (fan_in_fan_out L)) (bias L) = Inr result"
      using fwd br
      by (cases "F_linear x (peft_transpose (weight L) (fan_in_fan_out L)) (bias L)")
         (auto simp: Linear_forward_def)
    obtain D where D: "lora_term dropout mapping L x = Inr D"
      using fwd br res by (cases "lora_term dropout mapping L x") (auto simp: Linear_forward_def)
    obtain out where out: "iadd_batch result D = Inr out"
      using fwd br res D by (cases "iadd_batch result D") (auto simp: Linear_forward_def)
    have eq: "L' = L" "y = out"
      using fwd br res D out by (auto simp: Linear_forward_def)
    have lD: "length D = length x" using lora_term_NO_LORA(1)[OF D len i no] .
    obtain n m where z: "D ! i = zeros n m" using lora_term_NO_LORA(2)[OF D len i no] by blast
    have lr: "length result = length x" and wf: "wf_mat (result ! i)"
      using F_linear_wf[OF res i] by simp_all
    have s: "sequence (map2 iadd result D) = Inr out"
      using out lD lr by (simp add: iadd_batch_def)
    have "map2 iadd result D ! i = Inr (out ! i)"
      using sequence_Inr[OF s] i lD lr by simp
    then have "iadd (result ! i) (zeros n m) = Inr (out ! i)"
      using i lD lr z by simp
    then have "out ! i = result ! i" using iadd_zeros[OF wf] by simp
    then show ?thesis using res D z eq by auto
  qed
  have other: "\<exists>base. F_linear x (peft_transpose (weight L') (fan_in_fan_out L')) (bias L') = Inr base
          \<and> y ! i = base ! i"
    if nbr: "\<not> (lora_A L \<noteq> None \<and> \<not> disable_adapters L \<and> lora_r L > 0 \<and> \<not> merged L)"
  proof (cases "lora_A L \<noteq> None \<and> disable_adapters L")
    case True
    obtain e L1 where u: "(if lora_r L > 0 \<and> merged L then unmerge L else (None, L)) = (e, L1)"
      by (cases "if lora_r L > 0 \<and> merged L then unmerge L else (None, L)") auto
    have e: "e = None" using fwd True u by (cases e) (auto simp: Linear_forward_def)
    obtain base where b: "F_linear x (peft_transpose (weight L1) (fan_in_fan_out L1)) (bias L1) = Inr base"
      using fwd True u e
      by (cases "F_linear x (peft_transpose (weight L1) (fan_in_fan_out L1)) (bias L1)")
         (auto simp: Linear_forward_def)
    have "L' = L1" "y = base" using fwd True u e b by (auto simp: Linear_forward_def)
    then show ?thesis using b by simp
  next
    case False
    obtain base where b: "F_linear x (peft_transpose (weight L) (fan_in_fan_out L)) (bias L) = Inr base"
      using fwd False nbr
      by (cases "F_linear x (peft_transpose (weight L) (fan_in_fan_out L)) (bias L)")
         (auto simp: Linear_forward_def split: if_splits)
    have "L' = L" "y = base" using fwd False nbr b by (auto simp: Linear_forward_def split: if_splits)
    then show ?thesis using b by simp
  qed
  show ?thesis
    using adapter other gather_block_NO_LORA by blast
qed

theorem NO_LORA_example_gets_base_output_witness:
  "Linear_forward (\<lambda>x. x) [NO_LORA] small_linear [two_mat] = Inr (small_linear, [two_mat])
   \<and> length [NO_LORA] = length [two_mat]
   \<and> (0 :: nat) < length [two_mat]
   \<and> [NO_LORA] ! 0 = NO_LORA
   \<and> lora_A small_linear \<noteq> None \<and> \<not> disable_adapters small_linear
   \<and> lora_r small_linear > 0 \<and> \<not> merged small_linear
   \<and> (\<exists>base. F_linear [two_mat] (peft_transpose (weight small_linear) (fan_in_fan_out small_linear))
                 (bias small_linear) = Inr base
          \<and> [two_mat] ! 0 = base ! 0)
   \<and> (\<exists>D n m. lora_term (\<lambda>x. x) [NO_LORA] small_linear [two_mat] = Inr D \<and> D ! 0 = zeros n m)"
proof -
  have l: "length [NO_LORA] = length [two_mat]" "length ((\<lambda>x. x) [two_mat]) = length [two_mat]"
    and i: "(0 :: nat) < length [two_mat]" and no: "[NO_LORA] ! 0 = NO_LORA"
    by simp_all
  have br: "lora_A small_linear \<noteq> None" "\<not> disable_adapters small_linear"
    "lora_r small_linear > 0" "\<not> merged small_linear"
    by (simp_all add: small_linear_def)
  show ?thesis
    using NO_LORA_example_gets_base_output[OF small_forward l i no] small_forward l i br
    by simp
qed

subsection \<open>The forward pass of the memory layer\<close>

text \<open>
  In training mode, on a store that is not empty and with \<^verbatim>\<open>batch_iter == 0\<close>, the
  forward pass runs the update loop on what the search found and then advances the block
  counter by one; and no forward pass, raising or not, leaves a cluster without points.
\<close>

lemma forward_training_update_runs_loop:
  assumes "\<not> disable_grace st" "table (VecDB st) \<noteq> []" "training st" "batch_iter st = Some 0"
    and "search st qs = Inr (ds, ns, m)"
  shows "GraceLinear_forward st qs =
     (case update_loop (st\<lparr>lora_block_mapping := replicate (length qs) (block_id st)\<rparr>) 0 qs ds ns of
        (Some e, s) \<Rightarrow> (Some e, s)
      | (None, s) \<Rightarrow>
          (None, s\<lparr>block_id := block_id s + 1, LORA_BLOCK_MAPPING := lora_block_mapping s\<rparr>))"
  using assms by (simp add: GraceLinear_forward_def)

lemma nonempty_init_loop:
  "nonempty_clusters (VecDB st) \<Longrightarrow> nonempty_clusters (VecDB (fst (snd (init_loop st i qs m))))"
proof (induction qs arbitrary: st i m)
  case Nil
  then show ?case by simp
next
  case (Cons q qs)
  show ?case
  proof (cases "read_edit_label st i")
    case (Inl e)
    then show ?thesis using Cons.prems by simp
  next
    case (Inr l)
    have "nonempty_clusters (VecDB (st\<lparr>VecDB := add_cluster (VecDB st) q (block_id st) l\<rparr>))"
      using Cons.prems by (simp add: nonempty_add_cluster)
    from Cons.IH[OF this] show ?thesis using Inr by (simp add: Let_def)
  qed
qed

lemma nonempty_update_step:
  assumes "nonempty_clusters (VecDB st)"
  shows "nonempty_clusters (VecDB (snd (update_step st i q d n)))"
proof -
  have a: "nonempty_clusters (add_cluster (VecDB st) q (block_id st) l)" for l
    using assms by (rule nonempty_add_cluster)
  have u: "nonempty_clusters (snd (update_cluster (VecDB st) n q (block_id st)))"
    using assms by (rule nonempty_update_cluster)
  have s: "nonempty_clusters (snd (split_cluster_radii_in_half
      (add_cluster (VecDB st) q (block_id st) l) n d))" for l
    using a by (rule nonempty_split)
  show ?thesis
  proof (cases "read_edit_label st i")
    case (Inl e)
    then show ?thesis
      using assms
      by (auto simp: update_step_def GraceLayer_add_cluster_def Let_def)
  next
    case (Inr l)
    then show ?thesis
      using assms a[of l] u s[of l]
      by (auto simp: update_step_def GraceLayer_add_cluster_def GraceLayer_update_cluster_def Let_def
          split: prod.splits)
  qed
qed

lemma nonempty_update_loop:
  "nonempty_clusters (VecDB st) \<Longrightarrow> nonempty_clusters (VecDB (snd (update_loop st i qs ds ns)))"
proof (induction qs arbitrary: st i)
  case Nil
  then show ?case by simp
next
  case (Cons q qs)
  show ?case
  proof (cases "i \<ge> length ns \<or> i \<ge> length ds")
    case True
    then show ?thesis using Cons.prems by auto
  next
    case False
    obtain e s1 where st: "update_step st i q (ds ! i) (ns ! i) = (e, s1)"
      by (cases "update_step st i q (ds ! i) (ns ! i)") auto
    have n1: "nonempty_clusters (VecDB s1)"
      using nonempty_update_step[OF Cons.prems, of i q "ds ! i" "ns ! i"] st by simp
    show ?thesis
    proof (cases e)
      case None
      then show ?thesis using False st Cons.IH[OF n1, of "Suc i"] by simp
    next
      case (Some a)
      then show ?thesis using False st n1 by simp
    qed
  qed
qed

lemma nonempty_forward:
  assumes "nonempty_clusters (VecDB st)"
  shows "nonempty_clusters (VecDB (snd (GraceLinear_forward st qs)))"
proof -
  have i: "nonempty_clusters (VecDB s)" if "init_loop st 0 qs [] = (e, s, m)" for e s m
    using nonempty_init_loop[OF assms, of 0 qs "[]"] that by simp
  have u: "nonempty_clusters (VecDB s)"
    if "update_loop (st\<lparr>lora_block_mapping := replicate (length qs) (block_id st)\<rparr>) 0 qs ds ns = (e, s)"
    for ds ns e s
  proof -
    have "nonempty_clusters (VecDB (st\<lparr>lora_block_mapping := replicate (length qs) (block_id st)\<rparr>))"
      using assms by simp
    from nonempty_update_loop[OF this, of 0 qs ds ns] show ?thesis using that by simp
  qed
  show ?thesis
    using assms i u
    by (auto simp: GraceLinear_forward_def init_key_value_def
        split: sum.splits prod.splits option.splits)
qed

end
